theory Spec2Isabelle
  imports Main "HOL-Library.Multiset"
begin

section \<open>Decoded JSON payloads and the Python operations applied to them\<close>

text \<open>
  The routers of \<^verbatim>\<open>backend/api/routers/search.py\<close> work on the decoded JSON
  answers of the catalog client. A payload is a tree of Python values: \<^verbatim>\<open>None\<close>,
  booleans, integers, strings, lists and dicts with string keys. A dict is kept as an
  association list in insertion order (the order \<^verbatim>\<open>values()\<close> iterates in); a
  decoded dict has distinct keys, and a lookup reads the first binding of a key.
  Floating-point numbers are left out: the payloads considered carry integers where
  they carry numbers. Strings are lists of characters below 128.
\<close>

datatype json =
    JNull
  | JBool bool
  | JInt int
  | JStr string
  | JList "json list"
  | JObj "(string \<times> json) list"

text \<open>
  The exceptions the modelled code can raise. Every endpoint body sits in
  \<^verbatim>\<open>try: ... except Exception as e: raise HTTPException(status_code=500, ...)\<close>,
  so a value \<open>Inl e\<close> of an endpoint is the HTTP 500 answer.
\<close>

datatype py_error = KeyError | AttributeError | TypeError | IndexError | ValueError | ValidationError

type_synonym 'a result = "py_error + 'a"

definition bind_result :: "'a result \<Rightarrow> ('a \<Rightarrow> 'b result) \<Rightarrow> 'b result" where
  "bind_result r f = (case r of Inl e \<Rightarrow> Inl e | Inr x \<Rightarrow> f x)"

text \<open>Truth value of a Python object, as tested by \<^verbatim>\<open>if x\<close>, \<^verbatim>\<open>not x\<close>, \<^verbatim>\<open>x or y\<close>.\<close>

fun truthy :: "json \<Rightarrow> bool" where
  "truthy JNull = False"
| "truthy (JBool b) = b"
| "truthy (JInt i) = (i \<noteq> 0)"
| "truthy (JStr s) = (s \<noteq> [])"
| "truthy (JList xs) = (xs \<noteq> [])"
| "truthy (JObj kvs) = (kvs \<noteq> [])"

text \<open>\<^verbatim>\<open>x or y\<close>: the first operand when it is truthy, else the second.\<close>

definition py_or :: "json \<Rightarrow> json \<Rightarrow> json" where
  "py_or x y = (if truthy x then x else y)"

fun is_dict :: "json \<Rightarrow> bool" where
  "is_dict (JObj kvs) = True"
| "is_dict _ = False"

fun is_list :: "json \<Rightarrow> bool" where
  "is_list (JList xs) = True"
| "is_list _ = False"

fun is_str :: "json \<Rightarrow> bool" where
  "is_str (JStr s) = True"
| "is_str _ = False"

text \<open>\<^verbatim>\<open>k in d\<close>, \<^verbatim>\<open>d.get(k)\<close> and \<^verbatim>\<open>d.get(k, default)\<close> on the bindings of a dict.\<close>

definition has_key :: "(string \<times> json) list \<Rightarrow> string \<Rightarrow> bool" where
  "has_key kvs k = (map_of kvs k \<noteq> None)"

definition dget_default :: "(string \<times> json) list \<Rightarrow> string \<Rightarrow> json \<Rightarrow> json" where
  "dget_default kvs k d = (case map_of kvs k of None \<Rightarrow> d | Some v \<Rightarrow> v)"

definition dget :: "(string \<times> json) list \<Rightarrow> string \<Rightarrow> json" where
  "dget kvs k = dget_default kvs k JNull"

text \<open>
  The same calls on an arbitrary value: only a dict has a \<^verbatim>\<open>get\<close> method, any other
  receiver raises \<^verbatim>\<open>AttributeError\<close>.
\<close>

fun py_get_default :: "json \<Rightarrow> string \<Rightarrow> json \<Rightarrow> json result" where
  "py_get_default (JObj kvs) k d = Inr (dget_default kvs k d)"
| "py_get_default _ k d = Inl AttributeError"

definition py_get :: "json \<Rightarrow> string \<Rightarrow> json result" where
  "py_get x k = py_get_default x k JNull"

text \<open>\<^verbatim>\<open>key in x\<close> where \<open>x\<close> is known to be a dict or not: \<^verbatim>\<open>isinstance(x, dict) and key in x\<close>.\<close>

fun dict_has :: "json \<Rightarrow> string \<Rightarrow> bool" where
  "dict_has (JObj kvs) k = has_key kvs k"
| "dict_has _ k = False"

text \<open>
  \<^verbatim>\<open>for x in v\<close>: a list yields its elements, a dict its keys, a string its
  characters; the other values are not iterable.
\<close>

fun py_iter :: "json \<Rightarrow> json list result" where
  "py_iter (JList xs) = Inr xs"
| "py_iter (JObj kvs) = Inr (map (\<lambda>kv. JStr (fst kv)) kvs)"
| "py_iter (JStr s) = Inr (map (\<lambda>c. JStr [c]) s)"
| "py_iter _ = Inl TypeError"

text \<open>
  \<^verbatim>\<open>x[0]\<close>. The keys of a decoded dict are strings, so the integer key is never
  found.
\<close>

fun py_first :: "json \<Rightarrow> json result" where
  "py_first (JList []) = Inl IndexError"
| "py_first (JList (x # xs)) = Inr x"
| "py_first (JStr []) = Inl IndexError"
| "py_first (JStr (c # cs)) = Inr (JStr [c])"
| "py_first (JObj kvs) = Inl KeyError"
| "py_first _ = Inl TypeError"

subsection \<open>\<^verbatim>\<open>str\<close>, \<^verbatim>\<open>repr\<close>, \<^verbatim>\<open>strip\<close>, \<^verbatim>\<open>split\<close>, \<^verbatim>\<open>int\<close>\<close>

definition digit_char :: "nat \<Rightarrow> char" where
  "digit_char n = char_of (48 + n)"

fun nat_digits :: "nat \<Rightarrow> string" where
  "nat_digits n = (if n < 10 then [digit_char n] else nat_digits (n div 10) @ [digit_char (n mod 10)])"

declare nat_digits.simps [simp del]

definition int_str :: "int \<Rightarrow> string" where
  "int_str i = (if i < 0 then CHR ''-'' # nat_digits (nat (- i)) else nat_digits (nat i))"

definition hex_char :: "nat \<Rightarrow> char" where
  "hex_char n = (if n < 10 then char_of (48 + n) else char_of (87 + n))"

text \<open>
  \<^verbatim>\<open>repr\<close> of a string: single quotes, unless the string holds a single quote and no
  double quote; backslash and the chosen quote are escaped, tab, newline and carriage
  return are written \<^verbatim>\<open>\t \n \r\<close>, the other control characters \<^verbatim>\<open>\xhh\<close>.
\<close>

definition repr_char :: "char \<Rightarrow> char \<Rightarrow> string" where
  "repr_char q c =
     (let n = (of_char c :: nat) in
      if c = q \<or> n = 92 then [char_of (92::nat), c]
      else if n = 9 then [char_of (92::nat), CHR ''t'']
      else if n = 10 then [char_of (92::nat), CHR ''n'']
      else if n = 13 then [char_of (92::nat), CHR ''r'']
      else if n < 32 \<or> n = 127 then [char_of (92::nat), CHR ''x'', hex_char (n div 16), hex_char (n mod 16)]
      else [c])"

definition repr_str :: "string \<Rightarrow> string" where
  "repr_str s =
     (let q = (if char_of (39::nat) \<in> set s \<and> char_of (34::nat) \<notin> set s
               then char_of (34::nat) else char_of (39::nat))
      in q # concat (map (repr_char q) s) @ [q])"

fun join :: "string \<Rightarrow> string list \<Rightarrow> string" where
  "join sep [] = []"
| "join sep [x] = x"
| "join sep (x # y # ys) = x @ sep @ join sep (y # ys)"

fun py_repr :: "json \<Rightarrow> string" where
  "py_repr JNull = ''None''"
| "py_repr (JBool b) = (if b then ''True'' else ''False'')"
| "py_repr (JInt i) = int_str i"
| "py_repr (JStr s) = repr_str s"
| "py_repr (JList xs) = ''['' @ join '', '' (map py_repr xs) @ '']''"
| "py_repr (JObj kvs) =
     ''{'' @ join '', '' (map (\<lambda>kv. repr_str (fst kv) @ '': '' @ py_repr (snd kv)) kvs) @ ''}''"

text \<open>\<^verbatim>\<open>str(x)\<close>: a string is itself, every other value is printed as by \<^verbatim>\<open>repr\<close>.\<close>

fun py_str :: "json \<Rightarrow> string" where
  "py_str (JStr s) = s"
| "py_str x = py_repr x"

definition is_space :: "char \<Rightarrow> bool" where
  "is_space c = (let n = (of_char c :: nat) in (9 \<le> n \<and> n \<le> 13) \<or> (28 \<le> n \<and> n \<le> 32))"

definition py_strip :: "string \<Rightarrow> string" where
  "py_strip s = rev (dropWhile is_space (rev (dropWhile is_space s)))"

text \<open>\<^verbatim>\<open>s.split('-')[0]\<close>: the part of \<open>s\<close> before the first hyphen, all of \<open>s\<close> if it has none.\<close>

definition split_first :: "string \<Rightarrow> string" where
  "split_first s = takeWhile (\<lambda>c. c \<noteq> CHR ''-'') s"

definition is_digit :: "char \<Rightarrow> bool" where
  "is_digit c = (let n = (of_char c :: nat) in 48 \<le> n \<and> n \<le> 57)"

text \<open>
  The digits of an integer literal accepted by \<^verbatim>\<open>int(s)\<close>: a non-empty run of digits
  in which single underscores may separate digits.
\<close>

fun valid_digits :: "string \<Rightarrow> bool" where
  "valid_digits [] = False"
| "valid_digits [c] = is_digit c"
| "valid_digits (c # d # cs) =
     (is_digit c \<and> (if d = CHR ''_'' then valid_digits cs else valid_digits (d # cs)))"

definition digits_value :: "string \<Rightarrow> int" where
  "digits_value s =
     foldl (\<lambda>acc c. if is_digit c then 10 * acc + (int (of_char c) - 48) else acc) 0 s"

text \<open>
  \<^verbatim>\<open>int(s)\<close> skips the white space of the C locale around the literal: the characters
  9 to 13 and the blank. The separators 28 to 31, which \<^verbatim>\<open>strip\<close> removes, are not
  skipped and make the string invalid.
\<close>

definition is_int_space :: "char \<Rightarrow> bool" where
  "is_int_space c = (let n = (of_char c :: nat) in (9 \<le> n \<and> n \<le> 13) \<or> n = 32)"

text \<open>
  A literal of more than 4300 digits is refused with \<^verbatim>\<open>ValueError\<close> (the default
  of \<^verbatim>\<open>sys.set_int_max_str_digits\<close>); underscores do not count as digits.
\<close>

definition within_digit_limit :: "string \<Rightarrow> bool" where
  "within_digit_limit s = (length (filter is_digit s) \<le> 4300)"

definition parse_int :: "string \<Rightarrow> int option" where
  "parse_int s =
     (case rev (dropWhile is_int_space (rev (dropWhile is_int_space s))) of
        [] \<Rightarrow> None
      | c # cs \<Rightarrow>
          if c = CHR ''-''
          then (if valid_digits cs \<and> within_digit_limit cs then Some (- digits_value cs) else None)
          else if c = CHR ''+''
          then (if valid_digits cs \<and> within_digit_limit cs then Some (digits_value cs) else None)
          else if valid_digits (c # cs) \<and> within_digit_limit (c # cs)
          then Some (digits_value (c # cs)) else None)"

fun py_int :: "json \<Rightarrow> int result" where
  "py_int (JInt i) = Inr i"
| "py_int (JBool b) = Inr (if b then 1 else 0)"
| "py_int (JStr s) = (case parse_int s of None \<Rightarrow> Inl ValueError | Some i \<Rightarrow> Inr i)"
| "py_int _ = Inl TypeError"

text \<open>A sequential loop whose body may raise: the first exception ends it.\<close>

fun for_each :: "('a \<Rightarrow> 's \<Rightarrow> 's result) \<Rightarrow> 'a list \<Rightarrow> 's \<Rightarrow> 's result" where
  "for_each body [] s = Inr s"
| "for_each body (x # xs) s = (case body x s of Inl e \<Rightarrow> Inl e | Inr s' \<Rightarrow> for_each body xs s')"

text \<open>\<^verbatim>\<open>item.get('item', item) if isinstance(item, dict) else item\<close>\<close>

fun unwrap_item :: "json \<Rightarrow> json" where
  "unwrap_item (JObj kvs) = dget_default kvs ''item'' (JObj kvs)"
| "unwrap_item x = x"

section \<open>The artist endpoint \<^verbatim>\<open>get_artist\<close>\<close>

subsection \<open>The recursive locator\<close>

text \<open>
  \<^verbatim>\<open>find_artist_object_recursive(data, target_id)\<close>. The two loops of the source,
  over \<^verbatim>\<open>data.values()\<close> and over the items of a list, are \<open>find_in_values\<close> and
  \<open>find_in_items\<close>; \<^verbatim>\<open>if res: return res\<close> tests the truth value of the result
  of the recursive call. \<^verbatim>\<open>None\<close> is \<open>JNull\<close>.
\<close>

fun find_artist_object_recursive :: "json \<Rightarrow> json \<Rightarrow> json"
  and find_in_values :: "(string \<times> json) list \<Rightarrow> json \<Rightarrow> json"
  and find_in_items :: "json list \<Rightarrow> json \<Rightarrow> json"
where
  "find_artist_object_recursive (JObj kvs) target_id =
     (if has_key kvs ''id'' \<and> py_str (dget kvs ''id'') = py_str target_id \<and> has_key kvs ''name''
      then JObj kvs
      else find_in_values kvs target_id)"
| "find_artist_object_recursive (JList xs) target_id = find_in_items xs target_id"
| "find_artist_object_recursive JNull target_id = JNull"
| "find_artist_object_recursive (JBool b) target_id = JNull"
| "find_artist_object_recursive (JInt i) target_id = JNull"
| "find_artist_object_recursive (JStr s) target_id = JNull"
| "find_in_values [] target_id = JNull"
| "find_in_values (kv # kvs) target_id =
     (let res = find_artist_object_recursive (snd kv) target_id
      in if truthy res then res else find_in_values kvs target_id)"
| "find_in_items [] target_id = JNull"
| "find_in_items (item # items) target_id =
     (let res = find_artist_object_recursive item target_id
      in if truthy res then res else find_in_items items target_id)"

text \<open>
  The locator in the words of the specification: the nodes of a payload in depth-first
  order (a node before its children, the children in the order of the dict's values or
  of the list), and the shape a node must have to match.
\<close>

fun nodes :: "json \<Rightarrow> json list" where
  "nodes (JObj kvs) = JObj kvs # concat (map (\<lambda>kv. nodes (snd kv)) kvs)"
| "nodes (JList xs) = JList xs # concat (map nodes xs)"
| "nodes x = [x]"

fun artist_match :: "json \<Rightarrow> json \<Rightarrow> bool" where
  "artist_match target_id (JObj kvs) =
     (has_key kvs ''id'' \<and> py_str (dget kvs ''id'') = py_str target_id \<and> has_key kvs ''name'')"
| "artist_match target_id x = False"

definition first_in :: "json \<Rightarrow> json list \<Rightarrow> json" where
  "first_in target_id ns =
     (case find (artist_match target_id) ns of None \<Rightarrow> JNull | Some n \<Rightarrow> n)"

definition first_match :: "json \<Rightarrow> json \<Rightarrow> json" where
  "first_match data target_id = first_in target_id (nodes data)"

subsection \<open>Albums of an artist\<close>

text \<open>
  A canonical album is the dict the source builds, with the keys \<^verbatim>\<open>id\<close>,
  \<^verbatim>\<open>title\<close>, \<^verbatim>\<open>year\<close>, \<^verbatim>\<open>cover\<close> and \<^verbatim>\<open>numberOfTracks\<close>.
\<close>

type_synonym pydict = "(string \<times> json) list"

definition is_album_like :: "json \<Rightarrow> bool" where
  "is_album_like obj = (is_dict obj \<and> dict_has obj ''id'' \<and> dict_has obj ''title'')"

definition is_track_like :: "json \<Rightarrow> bool" where
  "is_track_like obj =
     (is_dict obj \<and> dict_has obj ''id'' \<and> dict_has obj ''title'' \<and> dict_has obj ''duration'')"

text \<open>
  \<^verbatim>\<open>album.get('releaseDate', '').split('-')[0]\<close>, evaluated when
  \<^verbatim>\<open>album.get('releaseDate')\<close> is truthy: only a string has \<^verbatim>\<open>split\<close>.
\<close>

fun release_year :: "json \<Rightarrow> json result" where
  "release_year (JStr s) = Inr (JStr (split_first s))"
| "release_year x = Inl AttributeError"

text \<open>
  The \<^verbatim>\<open>year\<close> entry of an album found by the descent through
  \<^verbatim>\<open>albums.rows[].modules[].pagedList.items[]\<close> (line 410 of the source):
  \<^verbatim>\<open>... if album.get('releaseDate') else (album.get('year') or '')\<close>.
\<close>

definition year_nested :: "pydict \<Rightarrow> json result" where
  "year_nested album =
     (if truthy (dget album ''releaseDate'')
      then release_year (dget_default album ''releaseDate'' (JStr []))
      else Inr (py_or (dget album ''year'') (JStr [])))"

text \<open>
  The \<^verbatim>\<open>year\<close> entry of an album found under \<^verbatim>\<open>albums.items\<close> or returned
  by the direct albums endpoint (lines 424 and 468):
  \<^verbatim>\<open>... if album.get('releaseDate') else ''\<close>.
\<close>

definition year_flat :: "pydict \<Rightarrow> json result" where
  "year_flat album =
     (if truthy (dget album ''releaseDate'')
      then release_year (dget_default album ''releaseDate'' (JStr []))
      else Inr (JStr []))"

definition album_entry :: "pydict \<Rightarrow> json \<Rightarrow> pydict" where
  "album_entry album year =
     [(''id'', dget album ''id''),
      (''title'', dget album ''title''),
      (''year'', year),
      (''cover'', dget album ''cover''),
      (''numberOfTracks'', dget album ''numberOfTracks'')]"

text \<open>The body of the innermost loop, after unwrapping: one candidate album.\<close>

fun append_album :: "(pydict \<Rightarrow> json result) \<Rightarrow> json \<Rightarrow> pydict list \<Rightarrow> pydict list result" where
  "append_album year_of (JObj album) albums =
     (if is_album_like (JObj album)
      then bind_result (year_of album) (\<lambda>y. Inr (albums @ [album_entry album y]))
      else Inr albums)"
| "append_album year_of x albums = Inr albums"

definition nested_item_step :: "json \<Rightarrow> pydict list \<Rightarrow> pydict list result" where
  "nested_item_step item albums =
     (if is_list item then Inr albums else append_album year_nested (unwrap_item item) albums)"

definition flat_item_step :: "json \<Rightarrow> pydict list \<Rightarrow> pydict list result" where
  "flat_item_step item albums = append_album year_flat (unwrap_item item) albums"

fun module_step :: "json \<Rightarrow> pydict list \<Rightarrow> pydict list result" where
  "module_step (JObj module) albums =
     (case dget_default module ''pagedList'' (JObj []) of
        JObj paged_list \<Rightarrow>
          bind_result (py_iter (dget_default paged_list ''items'' (JList [])))
            (\<lambda>items. for_each nested_item_step items albums)
      | _ \<Rightarrow> Inr albums)"
| "module_step x albums = Inr albums"

fun row_step :: "json \<Rightarrow> pydict list \<Rightarrow> pydict list result" where
  "row_step (JObj row) albums =
     bind_result (py_iter (dget_default row ''modules'' (JList [])))
       (\<lambda>modules. for_each module_step modules albums)"
| "row_step x albums = Inr albums"

text \<open>Lines 388 to 427: the descent, then \<^verbatim>\<open>albums.items\<close> when the descent found nothing.\<close>

fun page_albums :: "json \<Rightarrow> pydict list result" where
  "page_albums (JObj albums_data) =
     bind_result (py_iter (dget_default albums_data ''rows'' (JList [])))
       (\<lambda>rows. bind_result (for_each row_step rows [])
          (\<lambda>albums.
             if albums = []
             then bind_result (py_iter (dget_default albums_data ''items'' (JList [])))
                    (\<lambda>album_list. for_each flat_item_step album_list [])
             else Inr albums))"
| "page_albums x = Inr []"

text \<open>
  Lines 456 to 472. \<open>direct_albums\<close> is the answer of
  \<^verbatim>\<open>tidal_client.get_artist_albums(artist_id)\<close>, which is asked only when no album
  was found in the artist page.
\<close>

definition direct_fallback :: "json \<Rightarrow> pydict list \<Rightarrow> pydict list result" where
  "direct_fallback direct_albums albums =
     (if albums = [] \<and> truthy direct_albums
      then bind_result
             (py_iter (case direct_albums of
                         JObj d \<Rightarrow> dget_default d ''items'' (JList [])
                       | _ \<Rightarrow> direct_albums))
             (\<lambda>raw_items. for_each flat_item_step raw_items albums)
      else Inr albums)"

text \<open>
  \<^verbatim>\<open>get_album_timestamp\<close>: \<^verbatim>\<open>int(year)\<close> inside a bare
  \<^verbatim>\<open>try ... except: return 0\<close>.
\<close>

definition get_album_timestamp :: "pydict \<Rightarrow> int" where
  "get_album_timestamp album =
     (let year = dget_default album ''year'' (JStr [])
      in if \<not> truthy year then 0
         else (case py_int year of Inl e \<Rightarrow> 0 | Inr i \<Rightarrow> i))"

text \<open>
  \<^verbatim>\<open>albums.sort(key=get_album_timestamp, reverse=True)\<close>: Python's sort is stable,
  and with \<^verbatim>\<open>reverse=True\<close> elements of equal key keep their original order. That
  is an insertion sort on the negated key.
\<close>

definition sort_albums :: "pydict list \<Rightarrow> pydict list" where
  "sort_albums albums = sort_key (\<lambda>a. - get_album_timestamp a) albums"

subsection \<open>Top tracks and artist details\<close>

text \<open>
  \<^verbatim>\<open>track_list\<close> of lines 430 to 436, and the slice \<^verbatim>\<open>track_list[:10]\<close> the loop
  runs over. A list or a string can be sliced; slicing any other value raises
  (\<^verbatim>\<open>TypeError\<close>; for a dict \<^verbatim>\<open>KeyError\<close> from Python 3.12 on).
\<close>

fun track_list_of :: "json \<Rightarrow> json" where
  "track_list_of (JList xs) = JList xs"
| "track_list_of (JObj d) = dget_default d ''items'' (dget_default d ''rows'' (JList []))"
| "track_list_of x = JList []"

fun py_take10 :: "json \<Rightarrow> json list result" where
  "py_take10 (JList xs) = Inr (take 10 xs)"
| "py_take10 (JStr s) = Inr (map (\<lambda>c. JStr [c]) (take 10 s))"
| "py_take10 x = Inl TypeError"

definition top_track_entry :: "pydict \<Rightarrow> pydict" where
  "top_track_entry track =
     (let album_data = (case dget track ''album'' of JObj a \<Rightarrow> a | _ \<Rightarrow> [])
      in [(''id'', dget track ''id''),
          (''title'', dget track ''title''),
          (''trackNumber'', dget track ''trackNumber''),
          (''album'',
             if album_data \<noteq> []
             then JObj [(''id'', dget album_data ''id''),
                        (''title'', dget album_data ''title''),
                        (''cover'', dget album_data ''cover'')]
             else JNull),
          (''artist'', dget_default track ''artist'' (JObj [])),
          (''duration'', dget track ''duration''),
          (''audioQuality'', dget_default track ''audioQuality'' (JStr ''LOSSLESS''))])"

fun top_track_step :: "json list \<Rightarrow> json \<Rightarrow> json list" where
  "top_track_step top_tracks item =
     (case unwrap_item item of
        JObj track \<Rightarrow>
          if is_track_like (JObj track) then top_tracks @ [JObj (top_track_entry track)]
          else top_tracks
      | _ \<Rightarrow> top_tracks)"

text \<open>
  Lines 506 to 528: name and picture of the artist. \<open>artist_info\<close> is a dict at this
  point (the \<^verbatim>\<open>get\<close> calls before would have raised otherwise); the result is the
  pair \<^verbatim>\<open>(artist_name, artist_picture)\<close>.
\<close>

definition artist_details :: "pydict \<Rightarrow> int \<Rightarrow> (json \<times> json) result" where
  "artist_details artist_info artist_id =
     (let name0 = dget artist_info ''name'';
          found_obj =
            (if \<not> truthy name0 \<or> \<not> truthy (dget artist_info ''picture'')
             then find_artist_object_recursive (JObj artist_info) (JInt artist_id)
             else JNull)
      in bind_result
           (if truthy found_obj
            then bind_result (if \<not> truthy name0 then py_get found_obj ''name'' else Inr name0)
                   (\<lambda>n. bind_result (py_get found_obj ''picture'') (\<lambda>p. Inr (n, p)))
            else Inr (name0, JNull))
           (\<lambda>(artist_name, picture1).
              if \<not> truthy picture1
              then (let picture2 = dget artist_info ''picture''
                    in if \<not> truthy picture2 \<and> has_key artist_info ''images''
                       then (case dget_default artist_info ''images'' (JList []) of
                               JList (img # imgs) \<Rightarrow>
                                 bind_result (py_get img ''id'')
                                   (\<lambda>i. if truthy i then Inr (artist_name, i)
                                         else bind_result (py_get img ''url'')
                                                (\<lambda>u. Inr (artist_name, u)))
                             | _ \<Rightarrow> Inr (artist_name, picture2))
                       else Inr (artist_name, picture2))
              else Inr (artist_name, picture1)))"

subsection \<open>The endpoint\<close>

text \<open>
  \<^verbatim>\<open>get_artist(artist_id)\<close>, from the answer \<open>artist_info\<close> of
  \<^verbatim>\<open>tidal_client.get_artist\<close> and the answer \<open>direct_albums\<close> of
  \<^verbatim>\<open>tidal_client.get_artist_albums\<close> to the JSON object it returns. The path
  parameter \<open>artist_id\<close> is declared \<^verbatim>\<open>int\<close>.
\<close>

definition get_artist :: "json \<Rightarrow> json \<Rightarrow> int \<Rightarrow> json result" where
  "get_artist artist_info direct_albums artist_id =
     (if \<not> truthy artist_info
      then Inr (JObj [(''info'', JNull), (''top_tracks'', JList []), (''albums'', JList [])])
      else (case artist_info of
              JObj info \<Rightarrow>
                bind_result (page_albums (dget_default info ''albums'' (JObj [])))
                  (\<lambda>albums1.
                bind_result (py_take10 (track_list_of (dget_default info ''tracks'' (JList []))))
                  (\<lambda>track_list.
                let top_tracks = foldl top_track_step [] track_list in
                bind_result (direct_fallback direct_albums albums1)
                  (\<lambda>albums2.
                let albums = sort_albums albums2 in
                bind_result (artist_details info artist_id)
                  (\<lambda>(artist_name, artist_picture).
                Inr (JObj
                  [(''artist'',
                      JObj [(''id'', JInt artist_id),
                            (''name'', py_or artist_name (JStr (''Artist '' @ int_str artist_id))),
                            (''picture'', artist_picture),
                            (''popularity'', dget info ''popularity'')]),
                   (''tracks'', JList top_tracks),
                   (''albums'', JList (map JObj albums))])))))
            | _ \<Rightarrow> Inl AttributeError))"

section \<open>The result models of \<^verbatim>\<open>api/models.py\<close>\<close>

text \<open>
  \<^verbatim>\<open>TrackSearchResult\<close> and \<^verbatim>\<open>PlaylistSearchResult\<close>. A record holds the
  keyword arguments of the constructor call, an omitted optional argument being
  \<^verbatim>\<open>None\<close>: first as the router computes them, then as the constructor keeps
  them after validation.
\<close>

record TrackSearchResult =
  tr_id :: json
  tr_title :: json
  tr_artist :: json
  tr_album :: json
  tr_track_number :: json
  tr_duration :: json
  tr_cover :: json
  tr_quality :: json
  tr_trackNumber :: json
  tr_albumArtist :: json
  tr_tidal_artist_id :: json
  tr_tidal_album_id :: json

record PlaylistSearchResult =
  pl_id :: string
  pl_title :: json
  pl_creator :: json
  pl_description :: json
  pl_numberOfTracks :: json
  pl_cover :: json

subsection \<open>Validation by the model base class\<close>

text \<open>
  Both classes derive from \<^verbatim>\<open>BaseModel\<close> of pydantic, which checks every keyword
  argument against the annotation of its field when the constructor is called, that is
  after all argument expressions have been evaluated, and raises
  \<^verbatim>\<open>ValidationError\<close> when an argument does not fit. The library is not part of the
  repository. Modelled from the conversion table of its documentation (version 2,
  default mode): a field annotated \<^verbatim>\<open>int\<close> keeps an integer, takes a boolean as 0 or
  1 and takes a string when the string converts to an integer; a field annotated
  \<^verbatim>\<open>str\<close> keeps a string and refuses every other value; \<^verbatim>\<open>Optional\<close> lets
  \<^verbatim>\<open>None\<close> through. Which strings convert, and to what, is the library's own parser
  and is the parameter \<open>str_as_int\<close> of the model: \<open>None\<close> for a string the parser
  refuses.
\<close>

definition int_field :: "(string \<Rightarrow> int option) \<Rightarrow> json \<Rightarrow> json result" where
  "int_field str_as_int v =
     (case v of
        JInt i \<Rightarrow> Inr (JInt i)
      | JBool b \<Rightarrow> Inr (JInt (if b then 1 else 0))
      | JStr s \<Rightarrow> (case str_as_int s of Some i \<Rightarrow> Inr (JInt i) | None \<Rightarrow> Inl ValidationError)
      | _ \<Rightarrow> Inl ValidationError)"

definition str_field :: "json \<Rightarrow> json result" where
  "str_field v = (case v of JStr s \<Rightarrow> Inr (JStr s) | _ \<Rightarrow> Inl ValidationError)"

definition optional_field :: "(json \<Rightarrow> json result) \<Rightarrow> json \<Rightarrow> json result" where
  "optional_field field v = (case v of JNull \<Rightarrow> Inr JNull | _ \<Rightarrow> field v)"

text \<open>
  \<^verbatim>\<open>TrackSearchResult(...)\<close> on computed arguments: \<^verbatim>\<open>id: int\<close>,
  \<^verbatim>\<open>title: str\<close>, \<^verbatim>\<open>artist: str\<close>, the integer fields \<^verbatim>\<open>track_number\<close>,
  \<^verbatim>\<open>duration\<close>, \<^verbatim>\<open>trackNumber\<close>, \<^verbatim>\<open>tidal_artist_id\<close>,
  \<^verbatim>\<open>tidal_album_id\<close> and the string fields \<^verbatim>\<open>album\<close>, \<^verbatim>\<open>cover\<close>,
  \<^verbatim>\<open>quality\<close>, \<^verbatim>\<open>albumArtist\<close> optional.
\<close>

definition validate_track ::
  "(string \<Rightarrow> int option) \<Rightarrow> TrackSearchResult \<Rightarrow> TrackSearchResult result" where
  "validate_track str_as_int args =
     bind_result (int_field str_as_int (tr_id args)) (\<lambda>v_id.
     bind_result (str_field (tr_title args)) (\<lambda>v_title.
     bind_result (str_field (tr_artist args)) (\<lambda>v_artist.
     bind_result (optional_field str_field (tr_album args)) (\<lambda>v_album.
     bind_result (optional_field (int_field str_as_int) (tr_track_number args)) (\<lambda>v_track_number.
     bind_result (optional_field (int_field str_as_int) (tr_duration args)) (\<lambda>v_duration.
     bind_result (optional_field str_field (tr_cover args)) (\<lambda>v_cover.
     bind_result (optional_field str_field (tr_quality args)) (\<lambda>v_quality.
     bind_result (optional_field (int_field str_as_int) (tr_trackNumber args)) (\<lambda>v_trackNumber.
     bind_result (optional_field str_field (tr_albumArtist args)) (\<lambda>v_albumArtist.
     bind_result (optional_field (int_field str_as_int) (tr_tidal_artist_id args)) (\<lambda>v_artist_id.
     bind_result (optional_field (int_field str_as_int) (tr_tidal_album_id args)) (\<lambda>v_album_id.
       Inr \<lparr> tr_id = v_id, tr_title = v_title, tr_artist = v_artist, tr_album = v_album,
             tr_track_number = v_track_number, tr_duration = v_duration, tr_cover = v_cover,
             tr_quality = v_quality, tr_trackNumber = v_trackNumber,
             tr_albumArtist = v_albumArtist, tr_tidal_artist_id = v_artist_id,
             tr_tidal_album_id = v_album_id \<rparr>))))))))))))"

text \<open>
  \<^verbatim>\<open>PlaylistSearchResult(...)\<close> on computed arguments: \<^verbatim>\<open>id: str\<close> is given a
  string by the router, \<^verbatim>\<open>title: str\<close>, and \<^verbatim>\<open>creator\<close>, \<^verbatim>\<open>description\<close>,
  \<^verbatim>\<open>cover\<close> optional strings, \<^verbatim>\<open>numberOfTracks\<close> an optional integer.
\<close>

definition validate_playlist ::
  "(string \<Rightarrow> int option) \<Rightarrow> PlaylistSearchResult \<Rightarrow> PlaylistSearchResult result" where
  "validate_playlist str_as_int args =
     bind_result (str_field (pl_title args)) (\<lambda>v_title.
     bind_result (optional_field str_field (pl_creator args)) (\<lambda>v_creator.
     bind_result (optional_field str_field (pl_description args)) (\<lambda>v_description.
     bind_result (optional_field (int_field str_as_int) (pl_numberOfTracks args)) (\<lambda>v_number.
     bind_result (optional_field str_field (pl_cover args)) (\<lambda>v_cover.
       Inr \<lparr> pl_id = pl_id args, pl_title = v_title, pl_creator = v_creator,
             pl_description = v_description, pl_numberOfTracks = v_number,
             pl_cover = v_cover \<rparr>)))))"

section \<open>Playlist search \<^verbatim>\<open>search_playlists\<close>\<close>

definition priority_keys :: "string list" where
  "priority_keys = [''squareImage'', ''image'', ''cover'', ''picture'', ''imageId'']"

text \<open>
  \<^verbatim>\<open>for key in keys: val = x.get(key); if val: return val\<close>. The result \<open>JNull\<close>
  says that the loop ran to its end. A receiver that is not a dict raises at the first
  key.
\<close>

fun first_truthy_get :: "json \<Rightarrow> string list \<Rightarrow> json result" where
  "first_truthy_get x [] = Inr JNull"
| "first_truthy_get x (key # keys) =
     bind_result (py_get x key)
       (\<lambda>val. if truthy val then Inr val else first_truthy_get x keys)"

text \<open>
  \<^verbatim>\<open>key in x\<close> for a string key: a key of a dict, an element of a list, a substring
  of a string; the other values are no containers.
\<close>

fun substring :: "string \<Rightarrow> string \<Rightarrow> bool" where
  "substring k [] = (k = [])"
| "substring k (c # cs) = (take (length k) (c # cs) = k \<or> substring k cs)"

fun py_contains :: "string \<Rightarrow> json \<Rightarrow> bool result" where
  "py_contains k (JObj kvs) = Inr (has_key kvs k)"
| "py_contains k (JList xs) = Inr (JStr k \<in> set xs)"
| "py_contains k (JStr s) = Inr (substring k s)"
| "py_contains k x = Inl TypeError"

text \<open>
  \<^verbatim>\<open>for key in keys: if key in x and x.get(key): return x.get(key)\<close>, again with
  \<open>JNull\<close> for a loop that ran to its end.
\<close>

fun first_truthy_in :: "json \<Rightarrow> string list \<Rightarrow> json result" where
  "first_truthy_in x [] = Inr JNull"
| "first_truthy_in x (key # keys) =
     bind_result (py_contains key x)
       (\<lambda>present.
          if present
          then bind_result (py_get x key)
                 (\<lambda>val. if truthy val then Inr val else first_truthy_in x keys)
          else first_truthy_in x keys)"

text \<open>
  \<^verbatim>\<open>rel.get('coverArt') or rel.get('coverart') or rel.get('thumbnailArt')\<close> followed
  by \<^verbatim>\<open>cover_rel.get('data') if isinstance(cover_rel, dict) else None\<close>.
\<close>

definition cover_data_of :: "json \<Rightarrow> json result" where
  "cover_data_of rel =
     bind_result (py_get rel ''coverArt'') (\<lambda>a.
       bind_result (if truthy a then Inr a
                    else bind_result (py_get rel ''coverart'') (\<lambda>b.
                           if truthy b then Inr b else py_get rel ''thumbnailArt''))
         (\<lambda>cover_rel.
            case cover_rel of JObj c \<Rightarrow> Inr (dget c ''data'') | _ \<Rightarrow> Inr JNull))"

text \<open>
  \<^verbatim>\<open>for file in files: href = file.get('href'); if href: ...\<close>: the first truthy
  \<^verbatim>\<open>href\<close> of the files, \<open>None\<close> if the loop ends without one.
\<close>

fun first_href :: "json list \<Rightarrow> json option result" where
  "first_href [] = Inr None"
| "first_href (file # files) =
     bind_result (py_get file ''href'')
       (\<lambda>href. if truthy href then Inr (Some href) else first_href files)"

text \<open>
  \<^verbatim>\<open>attrs_inc = inc.get('attributes', {}) if isinstance(inc, dict) else {}\<close> and
  \<^verbatim>\<open>files = attrs_inc.get('files') or []\<close>, then the loop over the files.
\<close>

definition resource_href :: "json \<Rightarrow> json option result" where
  "resource_href inc =
     (let attrs_inc = (case inc of JObj i \<Rightarrow> dget_default i ''attributes'' (JObj []) | _ \<Rightarrow> JObj [])
      in bind_result (py_get attrs_inc ''files'')
           (\<lambda>f. bind_result (py_iter (py_or f (JList []))) first_href))"

text \<open>
  The loop over \<^verbatim>\<open>included\<close> in \<^verbatim>\<open>get_cover_id\<close> (lines 137 to 146), entered
  with a truthy \<open>cover_id\<close>.
\<close>

fun lookup_included :: "json \<Rightarrow> json list \<Rightarrow> json result" where
  "lookup_included cover_id [] = Inr cover_id"
| "lookup_included cover_id (inc # incs) =
     bind_result (py_get inc ''id'')
       (\<lambda>i. if py_str i = py_str cover_id
             then bind_result (resource_href inc)
                    (\<lambda>h. case h of Some href \<Rightarrow> Inr href | None \<Rightarrow> Inr cover_id)
             else lookup_included cover_id incs)"

text \<open>
  The body of the \<^verbatim>\<open>try\<close> block of \<^verbatim>\<open>get_cover_id\<close>, for the dict \<open>pl\<close>:
  the value it returns, \<open>JNull\<close> when it falls through to \<^verbatim>\<open>return None\<close>.
\<close>

definition relationship_cover :: "pydict \<Rightarrow> json \<Rightarrow> json result" where
  "relationship_cover pl included =
     bind_result (cover_data_of (dget_default pl ''relationships'' (JObj [])))
       (\<lambda>cover_data.
          bind_result
            (case cover_data of
               JObj d \<Rightarrow> Inr (dget d ''id'')
             | JList (first # others) \<Rightarrow> py_get first ''id''
             | _ \<Rightarrow> Inr JNull)
            (\<lambda>cover_id.
               if truthy cover_id
               then bind_result (py_iter included) (lookup_included cover_id)
               else Inr JNull))"

text \<open>
  \<^verbatim>\<open>get_cover_id(pl)\<close>, the closure of \<^verbatim>\<open>search_playlists\<close> over
  \<^verbatim>\<open>included\<close>. Its only call is in the list comprehension, after the filter
  \<^verbatim>\<open>pl.get('uuid') or pl.get('id')\<close> has called \<^verbatim>\<open>pl.get\<close>, so \<open>pl\<close> is a
  dict. The two loops over the priority keys are outside the \<^verbatim>\<open>try\<close> block; an
  exception inside the block makes the function return \<^verbatim>\<open>None\<close>.
\<close>

definition get_cover_id :: "json \<Rightarrow> pydict \<Rightarrow> json result" where
  "get_cover_id included pl =
     bind_result (first_truthy_get (dget_default pl ''attributes'' (JObj [])) priority_keys)
       (\<lambda>val.
          if truthy val then Inr (JStr (py_strip (py_str val)))
          else bind_result (first_truthy_in (JObj pl) priority_keys)
                 (\<lambda>val2.
                    if truthy val2 then Inr (JStr (py_strip (py_str val2)))
                    else (case relationship_cover pl included of
                            Inl e \<Rightarrow> Inr JNull
                          | Inr c \<Rightarrow> Inr c)))"

text \<open>
  The keyword arguments of one \<^verbatim>\<open>PlaylistSearchResult(...)\<close> of the comprehension
  (lines 153 to 160); of the argument expressions only \<^verbatim>\<open>get_cover_id(pl)\<close> can
  raise.
\<close>

definition playlist_args :: "json \<Rightarrow> pydict \<Rightarrow> PlaylistSearchResult result" where
  "playlist_args included pl =
     bind_result (get_cover_id included pl)
       (\<lambda>cover. Inr
          \<lparr> pl_id = py_str (py_or (dget pl ''uuid'') (dget pl ''id'')),
            pl_title = py_or (dget pl ''title'') (py_or (dget pl ''name'') (JStr ''Untitled Playlist'')),
            pl_creator =
              (case dget pl ''creator'' of
                 JObj c \<Rightarrow> (case py_or (JObj c) (JObj []) of JObj c' \<Rightarrow> dget c' ''name'' | _ \<Rightarrow> JNull)
               | other \<Rightarrow> other),
            pl_description = dget pl ''description'',
            pl_numberOfTracks = py_or (dget pl ''numberOfTracks'') (dget pl ''numberOfItems''),
            pl_cover = cover \<rparr>)"

text \<open>One \<^verbatim>\<open>PlaylistSearchResult(...)\<close>: the arguments, then the constructor.\<close>

definition playlist_result ::
  "(string \<Rightarrow> int option) \<Rightarrow> json \<Rightarrow> pydict \<Rightarrow> PlaylistSearchResult result" where
  "playlist_result str_as_int included pl =
     bind_result (playlist_args included pl) (validate_playlist str_as_int)"

text \<open>
  The comprehension \<^verbatim>\<open>[... for pl in playlists if pl.get('uuid') or pl.get('id')]\<close>.
\<close>

fun playlist_items ::
  "(string \<Rightarrow> int option) \<Rightarrow> json \<Rightarrow> json list \<Rightarrow> PlaylistSearchResult list result" where
  "playlist_items str_as_int included [] = Inr []"
| "playlist_items str_as_int included (JObj pl # playlists) =
     (if truthy (py_or (dget pl ''uuid'') (dget pl ''id''))
      then bind_result (playlist_result str_as_int included pl)
             (\<lambda>r. bind_result (playlist_items str_as_int included playlists) (\<lambda>rs. Inr (r # rs)))
      else playlist_items str_as_int included playlists)"
| "playlist_items str_as_int included (x # playlists) = Inl AttributeError"

text \<open>
  The endpoint. \<open>playlists\<close> is the list \<^verbatim>\<open>extract_items(result, 'playlists')\<close>;
  the helper lives in \<^verbatim>\<open>api/utils/extraction.py\<close>, so its value is taken as given.
  The value of the function is the \<^verbatim>\<open>items\<close> list of the answer.
\<close>

definition search_playlists ::
  "(string \<Rightarrow> int option) \<Rightarrow> json \<Rightarrow> json list \<Rightarrow> PlaylistSearchResult list result" where
  "search_playlists str_as_int result playlists =
     (if \<not> truthy result then Inr []
      else playlist_items str_as_int
             (case result of JObj r \<Rightarrow> dget_default r ''included'' (JList []) | _ \<Rightarrow> JList [])
             playlists)"

section \<open>The track endpoints\<close>

text \<open>\<^verbatim>\<open>x[k]\<close> for a string key: a missing key of a dict is a \<^verbatim>\<open>KeyError\<close>.\<close>

fun py_index :: "json \<Rightarrow> string \<Rightarrow> json result" where
  "py_index (JObj kvs) k = (case map_of kvs k of None \<Rightarrow> Inl KeyError | Some v \<Rightarrow> Inr v)"
| "py_index x k = Inl TypeError"

text \<open>\<^verbatim>\<open>d[k] = v\<close>: an existing key keeps its place, a new key goes to the end.\<close>

fun dset :: "pydict \<Rightarrow> string \<Rightarrow> json \<Rightarrow> pydict" where
  "dset [] k v = [(k, v)]"
| "dset (kv # kvs) k v = (if fst kv = k then (k, v) # kvs else kv # dset kvs k v)"

text \<open>A list comprehension whose element expression may raise.\<close>

fun map_result :: "('a \<Rightarrow> 'b result) \<Rightarrow> 'a list \<Rightarrow> 'b list result" where
  "map_result f [] = Inr []"
| "map_result f (x # xs) =
     bind_result (f x) (\<lambda>y. bind_result (map_result f xs) (\<lambda>ys. Inr (y # ys)))"

subsection \<open>Track search \<^verbatim>\<open>search_tracks\<close>\<close>

text \<open>
  The keyword arguments of one \<^verbatim>\<open>TrackSearchResult(...)\<close> of the comprehension of
  lines 27 to 42, evaluated in the order they are written.
\<close>

definition search_track_args :: "json \<Rightarrow> TrackSearchResult result" where
  "search_track_args track =
     bind_result (py_index track ''id'') (\<lambda>track_id.
     bind_result (py_index track ''title'') (\<lambda>title.
     bind_result (py_get_default track ''artist'' (JObj [])) (\<lambda>artist_obj.
     bind_result (py_get_default artist_obj ''name'' (JStr ''Unknown'')) (\<lambda>artist.
     bind_result (py_get_default track ''album'' (JObj [])) (\<lambda>album_obj.
     bind_result (py_get album_obj ''title'') (\<lambda>album.
     bind_result (py_get track ''duration'') (\<lambda>duration.
     bind_result (py_get album_obj ''cover'') (\<lambda>cover.
     bind_result (py_get track ''audioQuality'') (\<lambda>quality.
     bind_result (py_get track ''trackNumber'') (\<lambda>track_number.
     bind_result (py_get album_obj ''artist'') (\<lambda>album_artist_obj.
     bind_result (if truthy album_artist_obj then py_get album_artist_obj ''name''
                  else py_get_default artist_obj ''name'' (JStr ''Unknown'')) (\<lambda>album_artist.
     bind_result (py_get artist_obj ''id'') (\<lambda>tidal_artist_id.
     bind_result (py_get album_obj ''id'') (\<lambda>tidal_album_id.
       Inr \<lparr> tr_id = track_id, tr_title = title, tr_artist = artist, tr_album = album,
             tr_track_number = JNull, tr_duration = duration, tr_cover = cover,
             tr_quality = quality, tr_trackNumber = track_number,
             tr_albumArtist = album_artist, tr_tidal_artist_id = tidal_artist_id,
             tr_tidal_album_id = tidal_album_id \<rparr>))))))))))))))"

text \<open>One \<^verbatim>\<open>TrackSearchResult(...)\<close>: the arguments, then the constructor.\<close>

definition search_track_result ::
  "(string \<Rightarrow> int option) \<Rightarrow> json \<Rightarrow> TrackSearchResult result" where
  "search_track_result str_as_int track =
     bind_result (search_track_args track) (validate_track str_as_int)"

text \<open>
  The endpoint. \<open>tracks\<close> is the list \<^verbatim>\<open>extract_items(result, 'tracks')\<close>, taken
  as given like \<open>playlists\<close> above. The debug logging of lines 21 to 24 calls
  \<^verbatim>\<open>tracks[0].get\<close>.
\<close>

definition search_tracks ::
  "(string \<Rightarrow> int option) \<Rightarrow> json \<Rightarrow> json list \<Rightarrow> TrackSearchResult list result" where
  "search_tracks str_as_int result tracks =
     (if \<not> truthy result then Inr []
      else bind_result (case tracks of [] \<Rightarrow> Inr JNull | t0 # rest \<Rightarrow> py_get t0 ''artist'')
             (\<lambda>logged. map_result (search_track_result str_as_int) tracks))"

subsection \<open>Tracks of an album \<^verbatim>\<open>get_album_tracks\<close>\<close>

text \<open>
  The body of the loop of lines 189 to 201: \<open>tracks\<close> is the list built so far, each
  element the copy of a track dict with its \<^verbatim>\<open>track_number\<close> set.
\<close>

definition album_track_step :: "pydict list \<Rightarrow> json \<Rightarrow> pydict list" where
  "album_track_step tracks item =
     (case unwrap_item item of
        JObj track \<Rightarrow>
          if has_key track ''id''
          then (let n1 = py_or (dget track ''trackNumber'') (dget track ''track_number'');
                    n2 = (if \<not> truthy n1
                          then (case item of JObj i \<Rightarrow> dget i ''index'' | _ \<Rightarrow> n1)
                          else n1);
                    n3 = (if \<not> truthy n2 then JInt (int (length tracks) + 1) else n2)
                in tracks @ [dset track ''track_number'' n3])
          else tracks
      | _ \<Rightarrow> tracks)"

text \<open>\<^verbatim>\<open>track.get('artists', [{}])[0]\<close>, evaluated when \<^verbatim>\<open>track.get('artists')\<close> is truthy.\<close>

definition first_artist :: "pydict \<Rightarrow> json result" where
  "first_artist track = py_first (dget_default track ''artists'' (JList [JObj []]))"

text \<open>
  The keyword arguments of one \<^verbatim>\<open>TrackSearchResult(...)\<close> of the comprehension of
  lines 207 to 223.
\<close>

definition album_track_args :: "int \<Rightarrow> pydict \<Rightarrow> TrackSearchResult result" where
  "album_track_args album_id track =
     (let artist_obj = dget track ''artist''; album_obj = dget track ''album'' in
      bind_result
        (case artist_obj of
           JObj a \<Rightarrow> Inr (dget_default a ''name'' (JStr ''Unknown''))
         | _ \<Rightarrow> if truthy (dget track ''artists'')
                then bind_result (first_artist track)
                       (\<lambda>f. py_get_default f ''name'' (JStr ''Unknown''))
                else Inr (JStr ''Unknown'')) (\<lambda>artist.
      bind_result (py_get (dget_default track ''album'' (JObj [])) ''artist'') (\<lambda>album_artist_obj.
      bind_result
        (if truthy album_artist_obj then py_get album_artist_obj ''name''
         else (case artist_obj of
                 JObj a \<Rightarrow> Inr (dget_default a ''name'' (JStr ''Unknown''))
               | _ \<Rightarrow> Inr (JStr ''Unknown''))) (\<lambda>album_artist.
      bind_result
        (case artist_obj of
           JObj a \<Rightarrow> Inr (dget a ''id'')
         | _ \<Rightarrow> if truthy (dget track ''artists'')
                then bind_result (first_artist track) (\<lambda>f. py_get f ''id'')
                else Inr JNull) (\<lambda>tidal_artist_id.
        Inr \<lparr> tr_id = dget track ''id'',
              tr_title = dget_default track ''title'' (JStr ''Unknown''),
              tr_artist = artist,
              tr_album = (case album_obj of JObj a \<Rightarrow> dget a ''title'' | _ \<Rightarrow> JNull),
              tr_track_number = dget track ''track_number'',
              tr_duration = dget track ''duration'',
              tr_cover = (case album_obj of JObj a \<Rightarrow> dget a ''cover'' | _ \<Rightarrow> JNull),
              tr_quality = dget track ''audioQuality'',
              tr_trackNumber = dget track ''trackNumber'',
              tr_albumArtist = album_artist,
              tr_tidal_artist_id = tidal_artist_id,
              tr_tidal_album_id =
                (case album_obj of JObj a \<Rightarrow> dget a ''id'' | _ \<Rightarrow> JInt album_id) \<rparr>)))))"

text \<open>One \<^verbatim>\<open>TrackSearchResult(...)\<close>: the arguments, then the constructor.\<close>

definition album_track_result ::
  "(string \<Rightarrow> int option) \<Rightarrow> int \<Rightarrow> pydict \<Rightarrow> TrackSearchResult result" where
  "album_track_result str_as_int album_id track =
     bind_result (album_track_args album_id track) (validate_track str_as_int)"

text \<open>\<^verbatim>\<open>if isinstance(result, dict) and 'data' in result and 'version' in result: result = result['data']\<close>\<close>

definition unwrap_v2 :: "json \<Rightarrow> json" where
  "unwrap_v2 result =
     (case result of
        JObj r \<Rightarrow> if has_key r ''data'' \<and> has_key r ''version'' then dget r ''data'' else result
      | _ \<Rightarrow> result)"

definition album_tracks_loop :: "json list \<Rightarrow> pydict list" where
  "album_tracks_loop raw_items = foldl album_track_step [] raw_items"

text \<open>
  \<^verbatim>\<open>raw_items = result.get('items', []) if isinstance(result, dict) else result\<close>,
  after the version envelope is taken off.
\<close>

definition album_raw_items :: "json \<Rightarrow> json" where
  "album_raw_items result =
     (case unwrap_v2 result of
        JObj r \<Rightarrow> dget_default r ''items'' (JList [])
      | other \<Rightarrow> other)"

text \<open>
  The endpoint, from the answer \<open>result\<close> of \<^verbatim>\<open>tidal_client.get_album_tracks\<close> to
  the \<^verbatim>\<open>items\<close> list of its answer.
\<close>

definition get_album_tracks ::
  "(string \<Rightarrow> int option) \<Rightarrow> json \<Rightarrow> int \<Rightarrow> TrackSearchResult list result" where
  "get_album_tracks str_as_int result album_id =
     (if \<not> truthy result then Inr []
      else bind_result (py_iter (album_raw_items result))
             (\<lambda>items. map_result (album_track_result str_as_int album_id) (album_tracks_loop items)))"

subsection \<open>Playlist detail \<^verbatim>\<open>get_playlist_tracks\<close>\<close>

text \<open>\<^verbatim>\<open>str(cover_val).strip() if cover_val else None\<close>\<close>

definition cover_text :: "json \<Rightarrow> json" where
  "cover_text cover_val = (if truthy cover_val then JStr (py_strip (py_str cover_val)) else JNull)"

text \<open>
  Lines 256 to 278: the normalised \<^verbatim>\<open>playlist_info\<close> dict built from a truthy
  \<^verbatim>\<open>playlist_info\<close> found in the answer. The path parameter \<open>playlist_id\<close> is a
  string.
\<close>

definition playlist_info_from :: "json \<Rightarrow> string \<Rightarrow> pydict result" where
  "playlist_info_from playlist_info playlist_id =
     (let attrs = (case playlist_info of JObj p \<Rightarrow> dget_default p ''attributes'' (JObj []) | _ \<Rightarrow> JObj []);
          rels = (case playlist_info of JObj p \<Rightarrow> dget_default p ''relationships'' (JObj []) | _ \<Rightarrow> JObj [])
      in bind_result (first_truthy_in attrs priority_keys) (\<lambda>v1.
         bind_result (if \<not> truthy v1 then first_truthy_in playlist_info priority_keys else Inr v1)
           (\<lambda>cover_val.
         bind_result (py_get playlist_info ''uuid'') (\<lambda>uuid.
         bind_result (py_get playlist_info ''id'') (\<lambda>ident.
         bind_result (py_get attrs ''name'') (\<lambda>a_name.
         bind_result (py_get playlist_info ''title'') (\<lambda>title.
         bind_result (py_get playlist_info ''name'') (\<lambda>name.
         bind_result (py_get attrs ''description'') (\<lambda>a_description.
         bind_result (py_get playlist_info ''description'') (\<lambda>description.
         bind_result (py_get attrs ''numberOfItems'') (\<lambda>a_items.
         bind_result (py_get playlist_info ''numberOfTracks'') (\<lambda>n_tracks.
         bind_result (py_get playlist_info ''numberOfItems'') (\<lambda>n_items.
           Inr [(''id'', py_or uuid (py_or ident (JStr playlist_id))),
                (''title'', py_or a_name (py_or title name)),
                (''description'', py_or a_description description),
                (''numberOfTracks'', py_or a_items (py_or n_tracks n_items)),
                (''cover'', cover_text cover_val),
                (''relationships'', rels)])))))))))))))"

text \<open>Lines 280 to 294: the same dict built from the top level of the answer.\<close>

definition playlist_info_top :: "pydict \<Rightarrow> string \<Rightarrow> pydict result" where
  "playlist_info_top result playlist_id =
     bind_result (first_truthy_in (JObj result) priority_keys) (\<lambda>cover_val.
       Inr [(''id'', py_or (dget result ''uuid'') (JStr playlist_id)),
            (''title'', py_or (dget result ''title'') (dget result ''name'')),
            (''description'', dget result ''description''),
            (''numberOfTracks'', py_or (dget result ''numberOfTracks'') (dget result ''numberOfItems'')),
            (''cover'', cover_text cover_val),
            (''relationships'', dget_default result ''relationships'' (JObj []))])"

text \<open>Lines 249 to 253: where the playlist object is looked for.\<close>

definition find_playlist_info :: "pydict \<Rightarrow> json" where
  "find_playlist_info result =
     (let p = py_or (dget result ''playlist'') (dget result ''info'')
      in if \<not> truthy p
         then (case dget result ''data'' of JList (d # ds) \<Rightarrow> d | _ \<Rightarrow> p)
         else p)"

text \<open>Lines 296 to 303: where the raw items are looked for.\<close>

definition playlist_raw_items :: "pydict \<Rightarrow> json" where
  "playlist_raw_items result =
     (if has_key result ''items'' then dget_default result ''items'' (JList [])
      else (case dget result ''tracks'' of
              JObj t \<Rightarrow> dget_default t ''items'' (JList [])
            | JList ts \<Rightarrow> JList ts
            | _ \<Rightarrow> (case dget result ''data'' of JList ds \<Rightarrow> JList ds | _ \<Rightarrow> JList [])))"

text \<open>
  The loop over \<^verbatim>\<open>included\<close> of lines 315 to 326. \<open>Some c\<close> says that
  \<^verbatim>\<open>playlist_info['cover']\<close> was assigned \<open>c\<close>, \<open>None\<close> that no resource matched
  and the entry was left alone.
\<close>

fun playlist_lookup_included :: "json \<Rightarrow> json list \<Rightarrow> json option result" where
  "playlist_lookup_included cover_id [] = Inr None"
| "playlist_lookup_included cover_id (inc # incs) =
     bind_result (py_get inc ''id'')
       (\<lambda>i. if py_str i = py_str cover_id
             then bind_result (resource_href inc)
                    (\<lambda>h. case h of Some href \<Rightarrow> Inr (Some href) | None \<Rightarrow> Inr (Some cover_id))
             else playlist_lookup_included cover_id incs)"

text \<open>
  The body of the \<^verbatim>\<open>try\<close> block of lines 309 to 326. The relationships are read
  from the answer itself, and only a non-empty list under \<^verbatim>\<open>data\<close> is followed.
\<close>

definition playlist_relationship_cover :: "json \<Rightarrow> json \<Rightarrow> json option result" where
  "playlist_relationship_cover result included =
     bind_result
       (cover_data_of (case result of JObj r \<Rightarrow> dget_default r ''relationships'' (JObj []) | _ \<Rightarrow> JObj []))
       (\<lambda>cover_data.
          case cover_data of
            JList (first # others) \<Rightarrow>
              bind_result (py_get first ''id'')
                (\<lambda>cover_id. bind_result (py_iter included) (playlist_lookup_included cover_id))
          | _ \<Rightarrow> Inr None)"

text \<open>
  Lines 308 to 328 on the normalised dict: nothing changes when the dict has a truthy
  cover already or when the block raises.
\<close>

definition fill_cover :: "json \<Rightarrow> json \<Rightarrow> pydict \<Rightarrow> pydict" where
  "fill_cover result included playlist_info =
     (if \<not> truthy (dget playlist_info ''cover'')
      then (case playlist_relationship_cover result included of
              Inr (Some c) \<Rightarrow> dset playlist_info ''cover'' c
            | _ \<Rightarrow> playlist_info)
      else playlist_info)"

text \<open>
  The body of the loop of lines 331 to 352 for the item at index \<open>idx\<close> of
  \<^verbatim>\<open>enumerate(raw_items)\<close>: \<open>None\<close> for an item that is skipped.
\<close>

definition playlist_track_number :: "nat \<Rightarrow> json \<Rightarrow> pydict \<Rightarrow> json" where
  "playlist_track_number idx item track =
     (let n = py_or (dget track ''trackNumber'')
                (py_or (dget track ''track_number'')
                   (case item of JObj i \<Rightarrow> dget i ''index'' | _ \<Rightarrow> JNull))
      in if \<not> truthy n then JInt (int idx + 1) else n)"

text \<open>
  The keyword arguments of the \<^verbatim>\<open>TrackSearchResult(...)\<close> of lines 343 to 352,
  \<open>None\<close> for an item the loop skips.
\<close>

definition playlist_track_args :: "nat \<Rightarrow> json \<Rightarrow> TrackSearchResult option result" where
  "playlist_track_args idx item =
     (case unwrap_item item of
        JObj track \<Rightarrow>
          if \<not> has_key track ''id'' then Inr None
          else
            (let album_data = (case dget track ''album'' of JObj a \<Rightarrow> a | _ \<Rightarrow> [])
             in bind_result
                  (case dget track ''artist'' of
                     JObj a \<Rightarrow> Inr (JObj a)
                   | _ \<Rightarrow> if truthy (dget track ''artists'') then first_artist track
                          else Inr (JObj []))
                  (\<lambda>artist_data.
                     bind_result (py_get_default artist_data ''name'' (JStr ''Unknown''))
                       (\<lambda>artist. Inr (Some
                          \<lparr> tr_id = dget track ''id'',
                            tr_title = dget_default track ''title'' (JStr ''Unknown''),
                            tr_artist = artist,
                            tr_album = (if album_data \<noteq> [] then dget album_data ''title'' else JNull),
                            tr_track_number = playlist_track_number idx item track,
                            tr_duration = dget track ''duration'',
                            tr_cover =
                              (if album_data \<noteq> [] then dget album_data ''cover''
                               else if is_str (dget track ''cover'') then dget track ''cover''
                               else JNull),
                            tr_quality = dget track ''audioQuality'',
                            tr_trackNumber = JNull,
                            tr_albumArtist = JNull,
                            tr_tidal_artist_id = JNull,
                            tr_tidal_album_id = JNull \<rparr>))))
      | _ \<Rightarrow> Inr None)"

text \<open>
  The body of the loop with the constructor call: the item is skipped, or its
  \<^verbatim>\<open>TrackSearchResult\<close> is built from the arguments.
\<close>

definition playlist_track_result ::
  "(string \<Rightarrow> int option) \<Rightarrow> nat \<Rightarrow> json \<Rightarrow> TrackSearchResult option result" where
  "playlist_track_result str_as_int idx item =
     bind_result (playlist_track_args idx item)
       (\<lambda>a. case a of
              None \<Rightarrow> Inr None
            | Some args \<Rightarrow> bind_result (validate_track str_as_int args) (\<lambda>r. Inr (Some r)))"

fun playlist_tracks_loop ::
  "(string \<Rightarrow> int option) \<Rightarrow> nat \<Rightarrow> json list \<Rightarrow> TrackSearchResult list result" where
  "playlist_tracks_loop str_as_int idx [] = Inr []"
| "playlist_tracks_loop str_as_int idx (item # items) =
     bind_result (playlist_track_result str_as_int idx item)
       (\<lambda>r. bind_result (playlist_tracks_loop str_as_int (Suc idx) items)
               (\<lambda>rs. Inr (case r of None \<Rightarrow> rs | Some t \<Rightarrow> t # rs)))"

text \<open>
  The \<^verbatim>\<open>playlist\<close> entry of the answer (lines 244 to 294 and 307 to 328) and the
  raw items the track loop runs over (lines 296 to 305), both from the answer after the
  version envelope is taken off.
\<close>

definition playlist_entry :: "json \<Rightarrow> string \<Rightarrow> json result" where
  "playlist_entry result playlist_id =
     (case result of
        JObj r \<Rightarrow>
          bind_result
            (if truthy (find_playlist_info r)
             then playlist_info_from (find_playlist_info r) playlist_id
             else playlist_info_top r playlist_id)
            (\<lambda>info. Inr (JObj (fill_cover result (dget_default r ''included'' (JList [])) info)))
      | _ \<Rightarrow> Inr JNull)"

definition playlist_raw_of :: "json \<Rightarrow> json" where
  "playlist_raw_of result =
     (case result of
        JObj r \<Rightarrow> playlist_raw_items r
      | JList xs \<Rightarrow> JList xs
      | _ \<Rightarrow> JList [])"

text \<open>
  The endpoint, from the answer \<open>result\<close> of
  \<^verbatim>\<open>tidal_client.get_playlist_tracks(playlist_id)\<close> to the pair of the
  \<^verbatim>\<open>playlist\<close> entry and the \<^verbatim>\<open>items\<close> list of its answer.
\<close>

definition get_playlist_tracks ::
  "(string \<Rightarrow> int option) \<Rightarrow> json \<Rightarrow> string \<Rightarrow> (json \<times> TrackSearchResult list) result" where
  "get_playlist_tracks str_as_int result playlist_id =
     (if \<not> truthy result then Inr (JNull, [])
      else bind_result (playlist_entry (unwrap_v2 result) playlist_id)
             (\<lambda>playlist_info.
                bind_result (py_iter (playlist_raw_of (unwrap_v2 result)))
                  (\<lambda>items. bind_result (playlist_tracks_loop str_as_int 0 items)
                     (\<lambda>tracks. Inr (playlist_info, tracks)))))"

section \<open>Notions of the specification\<close>

text \<open>
  The first non-empty value found by reading the given keys, in their order, from a
  dict.
\<close>

definition first_nonempty :: "pydict \<Rightarrow> string list \<Rightarrow> json option" where
  "first_nonempty d keys = find truthy (map (dget d) keys)"

text \<open>
  A raw item carries an id when its unwrapped track object is a dict with an
  \<^verbatim>\<open>id\<close> key; \<open>track_of\<close> is that track object.
\<close>

definition carries_id :: "json \<Rightarrow> bool" where
  "carries_id item = (case unwrap_item item of JObj track \<Rightarrow> has_key track ''id'' | _ \<Rightarrow> False)"

definition track_of :: "json \<Rightarrow> pydict" where
  "track_of item = (case unwrap_item item of JObj track \<Rightarrow> track | _ \<Rightarrow> [])"

definition wrapper_index :: "json \<Rightarrow> json" where
  "wrapper_index item = (case item of JObj i \<Rightarrow> dget i ''index'' | _ \<Rightarrow> JNull)"

text \<open>
  The track number of an item by the three sources in their order: the explicit
  \<^verbatim>\<open>trackNumber\<close> or \<^verbatim>\<open>track_number\<close> of the track, the \<^verbatim>\<open>index\<close> of the
  enclosing item, the position \<open>n\<close>. A source counts when its value is truthy.
\<close>

definition fallback_number :: "json \<Rightarrow> int \<Rightarrow> json" where
  "fallback_number item n =
     (let explicit = py_or (dget (track_of item) ''trackNumber'') (dget (track_of item) ''track_number'')
      in if truthy explicit then explicit
         else if truthy (wrapper_index item) then wrapper_index item
         else JInt n)"

text \<open>
  The artist display name of a track: the \<^verbatim>\<open>name\<close> of its \<^verbatim>\<open>artist\<close> object;
  with no artist object, the \<^verbatim>\<open>name\<close> of the first element of its \<^verbatim>\<open>artists\<close>
  list; \<^verbatim>\<open>"Unknown"\<close> where the name is missing.
\<close>

definition artist_name_of :: "pydict \<Rightarrow> json" where
  "artist_name_of track =
     (case dget track ''artist'' of
        JObj a \<Rightarrow> dget_default a ''name'' (JStr ''Unknown'')
      | _ \<Rightarrow> (case dget track ''artists'' of
                JList (JObj f # rest) \<Rightarrow> dget_default f ''name'' (JStr ''Unknown'')
              | _ \<Rightarrow> JStr ''Unknown''))"

section \<open>Properties\<close>

subsection \<open>The recursive locator\<close>

lemma find_append_case:
  "find P (xs @ ys) = (case find P xs of None \<Rightarrow> find P ys | Some x \<Rightarrow> Some x)"
  by (induction xs) auto

lemma artist_match_truthy: "artist_match t n \<Longrightarrow> truthy n"
  by (cases n) (auto simp: has_key_def)

lemma first_in_truthy: "truthy (first_in t ns) \<longleftrightarrow> find (artist_match t) ns \<noteq> None"
proof (cases "find (artist_match t) ns")
  case None
  then show ?thesis by (simp add: first_in_def)
next
  case (Some n)
  then have "artist_match t n" by (auto simp: find_Some_iff)
  with Some show ?thesis by (simp add: first_in_def artist_match_truthy)
qed

lemma first_in_append:
  "first_in t (xs @ ys) = (if truthy (first_in t xs) then first_in t xs else first_in t ys)"
  by (auto simp: first_in_truthy) (auto simp: first_in_def find_append_case split: option.splits)

lemma locator_first_in:
  "find_artist_object_recursive d t = first_in t (nodes d)"
  "find_in_values kvs t = first_in t (concat (map (\<lambda>kv. nodes (snd kv)) kvs))"
  "find_in_items xs t = first_in t (concat (map nodes xs))"
proof (induction d t and kvs t and xs t
       rule: find_artist_object_recursive_find_in_values_find_in_items.induct)
  case (1 kvs target_id)
  then show ?case by (simp add: first_in_def)
next
  case (2 xs target_id)
  then show ?case by (simp add: first_in_def)
next
  case (8 kv kvs target_id)
  then show ?case by (simp add: first_in_append Let_def)
next
  case (10 item items target_id)
  then show ?case by (simp add: first_in_append Let_def)
qed (simp_all add: first_in_def)

text \<open>
  C8. \<^verbatim>\<open>find_artist_object_recursive(data, target_id)\<close> returns the first node, in
  depth-first order over nested dicts and lists, that is a dict with an \<^verbatim>\<open>id\<close> whose
  string form equals the string form of the target and with a \<^verbatim>\<open>name\<close>; it returns
  \<^verbatim>\<open>None\<close> when no node matches. On the nested page
  \<^verbatim>\<open>{albums:{rows:[{modules:[{pagedList:{items:[{artist:{id:"9",name:"Q"}}]}}]}]}}\<close>
  with target \<^verbatim>\<open>"9"\<close> it returns \<^verbatim>\<open>{id:"9", name:"Q"}\<close>.
\<close>

theorem locator_returns_first_match:
  "find_artist_object_recursive data target_id = first_match data target_id
   \<and> find_artist_object_recursive
         (JObj [(''albums'', JObj [(''rows'', JList [JObj [(''modules'', JList
            [JObj [(''pagedList'', JObj [(''items'', JList
               [JObj [(''artist'', JObj [(''id'', JStr ''9''), (''name'', JStr ''Q'')])]])])]])]])])])
         (JStr ''9'')
       = JObj [(''id'', JStr ''9''), (''name'', JStr ''Q'')]"
proof
  show "find_artist_object_recursive data target_id = first_match data target_id"
    by (simp add: locator_first_in first_match_def)
next
  show "find_artist_object_recursive
         (JObj [(''albums'', JObj [(''rows'', JList [JObj [(''modules'', JList
            [JObj [(''pagedList'', JObj [(''items'', JList
               [JObj [(''artist'', JObj [(''id'', JStr ''9''), (''name'', JStr ''Q'')])]])])]])]])])])
         (JStr ''9'')
       = JObj [(''id'', JStr ''9''), (''name'', JStr ''Q'')]"
    by code_simp
qed

theorem locator_returns_first_match_witness:
  "first_match (JList [JObj [(''id'', JInt 9)], JObj [(''id'', JInt 9), (''name'', JStr ''Q'')]]) (JStr ''9'')
     = JObj [(''id'', JInt 9), (''name'', JStr ''Q'')]
   \<and> first_match (JList [JObj [(''id'', JInt 8), (''name'', JStr ''P'')]]) (JStr ''9'') = JNull"
proof -
  have a: "find_artist_object_recursive
             (JList [JObj [(''id'', JInt 9)], JObj [(''id'', JInt 9), (''name'', JStr ''Q'')]]) (JStr ''9'')
           = JObj [(''id'', JInt 9), (''name'', JStr ''Q'')]"
    by code_simp
  have b: "find_artist_object_recursive (JList [JObj [(''id'', JInt 8), (''name'', JStr ''P'')]]) (JStr ''9'')
           = JNull"
    by code_simp
  from a b
    locator_returns_first_match
      [of "JList [JObj [(''id'', JInt 9)], JObj [(''id'', JInt 9), (''name'', JStr ''Q'')]]" "JStr ''9''"]
    locator_returns_first_match
      [of "JList [JObj [(''id'', JInt 8), (''name'', JStr ''P'')]]" "JStr ''9''"]
  show ?thesis by simp
qed

subsection \<open>Albums of an artist\<close>

lemma sort_albums_sorted:
  "sorted_wrt (\<lambda>a b. get_album_timestamp b \<le> get_album_timestamp a) (sort_albums albums)"
proof -
  have "sorted (map (\<lambda>a. - get_album_timestamp a) (sort_albums albums))"
    unfolding sort_albums_def by (rule sorted_sort_key)
  then show ?thesis by (simp add: sorted_map)
qed

lemma get_artist_albums:
  assumes "get_artist artist_info direct_albums artist_id = Inr (JObj resp)"
  shows "\<exists>collected. dget resp ''albums'' = JList (map JObj (sort_albums collected))"
proof (cases "truthy artist_info")
  case False
  with assms have "dget resp ''albums'' = JList (map JObj (sort_albums []))"
    by (auto simp: get_artist_def dget_def dget_default_def sort_albums_def)
  then show ?thesis by blast
next
  case True
  with assms show ?thesis
    by (auto simp: get_artist_def bind_result_def dget_def dget_default_def Let_def
             split: json.splits sum.splits prod.splits)
qed

lemma timestamp_no_year: "\<not> has_key a ''year'' \<Longrightarrow> get_album_timestamp a = 0"
  by (simp add: get_album_timestamp_def has_key_def dget_default_def)

lemma timestamp_year_string:
  "map_of a ''year'' = Some (JStr s) \<Longrightarrow>
   get_album_timestamp a = (case parse_int s of None \<Rightarrow> 0 | Some i \<Rightarrow> i)"
  by (cases s)
     (auto simp: get_album_timestamp_def dget_default_def parse_int_def
           split: option.splits)

lemma sorted_three_parts:
  fixes g :: "'a \<Rightarrow> int"
  shows "sorted (map g ys) \<Longrightarrow>
     ys = filter (\<lambda>y. g y < 0) ys @ filter (\<lambda>y. g y = 0) ys @ filter (\<lambda>y. 0 < g y) ys"
proof (induction ys)
  case Nil
  then show ?case by simp
next
  case (Cons y ys)
  then have le: "\<forall>z \<in> set ys. g y \<le> g z" and ih:
    "ys = filter (\<lambda>y. g y < 0) ys @ filter (\<lambda>y. g y = 0) ys @ filter (\<lambda>y. 0 < g y) ys"
    by simp_all
  consider "g y < 0" | "g y = 0" | "0 < g y" by linarith
  then show ?case
  proof cases
    case 1
    with ih show ?thesis by simp
  next
    case 2
    with le have "filter (\<lambda>y. g y < 0) ys = []"
      by (auto simp: filter_empty_conv)
    with 2 ih show ?thesis by simp
  next
    case 3
    with le have "filter (\<lambda>y. g y < 0) ys = []" and "filter (\<lambda>y. g y = 0) ys = []"
      by (auto simp: filter_empty_conv)
    with 3 ih show ?thesis by simp
  qed
qed

lemma sort_albums_parts:
  "sort_albums albums =
     sort_albums (filter (\<lambda>a. 0 < get_album_timestamp a) albums)
     @ filter (\<lambda>a. get_album_timestamp a = 0) albums
     @ sort_albums (filter (\<lambda>a. get_album_timestamp a < 0) albums)"
proof -
  let ?g = "\<lambda>a. - get_album_timestamp a"
  have "sorted (map ?g (sort_key ?g albums))"
    by (rule sorted_sort_key)
  from sorted_three_parts [OF this]
  have "sort_key ?g albums =
      filter (\<lambda>y. ?g y < 0) (sort_key ?g albums)
      @ filter (\<lambda>y. ?g y = 0) (sort_key ?g albums)
      @ filter (\<lambda>y. 0 < ?g y) (sort_key ?g albums)" .
  also have "filter (\<lambda>y. ?g y < 0) (sort_key ?g albums)
      = sort_key ?g (filter (\<lambda>a. 0 < get_album_timestamp a) albums)"
    by (simp add: filter_sort)
  also have "filter (\<lambda>y. ?g y = 0) (sort_key ?g albums)
      = filter (\<lambda>a. get_album_timestamp a = 0) albums"
    using sort_key_stable [of ?g 0 albums] by simp
  also have "filter (\<lambda>y. 0 < ?g y) (sort_key ?g albums)
      = sort_key ?g (filter (\<lambda>a. get_album_timestamp a < 0) albums)"
    by (simp add: filter_sort)
  finally show ?thesis
    by (simp add: sort_albums_def)
qed

text \<open>
  C6. The album list in the answer of the artist endpoint is the collected list after
  \<^verbatim>\<open>albums.sort(key=get_album_timestamp, reverse=True)\<close>: a rearrangement of the
  collected albums in descending order of the key. The key of an album is its year
  string read by \<^verbatim>\<open>int\<close>, and 0 when the album has no year or \<^verbatim>\<open>int\<close> refuses
  the string (the empty string, or the separator 31 before a digit). Albums of key 0
  are not always last: the sorted list is the albums of positive key in descending
  order, then the albums of key 0 in the order they were collected, then the albums of
  negative key in descending order. Years \<^verbatim>\<open>["2020","","2022","1999"]\<close> come out as
  \<^verbatim>\<open>["2022","2020","1999",""]\<close>.
\<close>

theorem albums_sorted_descending_by_year:
  "(get_artist artist_info direct_albums artist_id = Inr (JObj resp) \<longrightarrow>
      (\<exists>collected. dget resp ''albums'' = JList (map JObj (sort_albums collected))))
   \<and> sorted_wrt (\<lambda>a b. get_album_timestamp b \<le> get_album_timestamp a) (sort_albums albums)
   \<and> mset (sort_albums albums) = mset albums
   \<and> sort_albums albums =
         sort_albums (filter (\<lambda>a. 0 < get_album_timestamp a) albums)
         @ filter (\<lambda>a. get_album_timestamp a = 0) albums
         @ sort_albums (filter (\<lambda>a. get_album_timestamp a < 0) albums)
   \<and> (\<not> has_key a ''year'' \<longrightarrow> get_album_timestamp a = 0)
   \<and> (map_of a ''year'' = Some (JStr s) \<longrightarrow>
        get_album_timestamp a = (case parse_int s of None \<Rightarrow> 0 | Some i \<Rightarrow> i))
   \<and> get_album_timestamp [(''year'', JStr [char_of (31 :: nat), CHR ''7''])] = 0
   \<and> map (\<lambda>a. dget a ''year'')
        (sort_albums (map (\<lambda>y. [(''year'', JStr y)]) [''2020'', [], ''2022'', ''1999'']))
      = map JStr [''2022'', ''2020'', ''1999'', []]"
proof -
  have ex: "map (\<lambda>a. dget a ''year'')
        (sort_albums (map (\<lambda>y. [(''year'', JStr y)]) [''2020'', [], ''2022'', ''1999'']))
      = map JStr [''2022'', ''2020'', ''1999'', []]"
    by code_simp
  have sep: "get_album_timestamp [(''year'', JStr [char_of (31 :: nat), CHR ''7''])] = 0"
    by code_simp
  have perm: "mset (sort_albums albums) = mset albums"
    by (simp add: sort_albums_def)
  show ?thesis
    apply (intro conjI impI)
    subgoal by (rule get_artist_albums)
    subgoal by (rule sort_albums_sorted)
    subgoal by (rule perm)
    subgoal by (rule sort_albums_parts)
    subgoal by (rule timestamp_no_year)
    subgoal by (rule timestamp_year_string)
    subgoal by (rule sep)
    subgoal by (rule ex)
    done
qed

theorem albums_sorted_descending_by_year_witness:
  "get_artist (JObj [(''name'', JStr ''A'')])
     (JList [JObj [(''id'', JInt 1), (''title'', JStr ''T''), (''releaseDate'', JStr ''2020-01-01'')],
             JObj [(''id'', JInt 2), (''title'', JStr ''U''), (''releaseDate'', JStr ''2022-01-01'')]]) 7
   = Inr (JObj
       [(''artist'', JObj [(''id'', JInt 7), (''name'', JStr ''A''), (''picture'', JNull),
                           (''popularity'', JNull)]),
        (''tracks'', JList []),
        (''albums'', JList
          [JObj [(''id'', JInt 2), (''title'', JStr ''U''), (''year'', JStr ''2022''),
                 (''cover'', JNull), (''numberOfTracks'', JNull)],
           JObj [(''id'', JInt 1), (''title'', JStr ''T''), (''year'', JStr ''2020''),
                 (''cover'', JNull), (''numberOfTracks'', JNull)]])])
   \<and> (\<exists>collected.
         JList [JObj [(''id'', JInt 2), (''title'', JStr ''U''), (''year'', JStr ''2022''),
                      (''cover'', JNull), (''numberOfTracks'', JNull)],
                JObj [(''id'', JInt 1), (''title'', JStr ''T''), (''year'', JStr ''2020''),
                      (''cover'', JNull), (''numberOfTracks'', JNull)]]
         = JList (map JObj (sort_albums collected)))
   \<and> get_album_timestamp [(''id'', JInt 3)] = 0
   \<and> get_album_timestamp [(''year'', JStr ''n/a'')] = 0
   \<and> get_album_timestamp [(''year'', JStr ''1999'')] = 1999"
proof -
  let ?resp = "[(''artist'', JObj [(''id'', JInt 7), (''name'', JStr ''A''), (''picture'', JNull),
                           (''popularity'', JNull)]),
        (''tracks'', JList []),
        (''albums'', JList
          [JObj [(''id'', JInt 2), (''title'', JStr ''U''), (''year'', JStr ''2022''),
                 (''cover'', JNull), (''numberOfTracks'', JNull)],
           JObj [(''id'', JInt 1), (''title'', JStr ''T''), (''year'', JStr ''2020''),
                 (''cover'', JNull), (''numberOfTracks'', JNull)]])]"
  have run: "get_artist (JObj [(''name'', JStr ''A'')])
     (JList [JObj [(''id'', JInt 1), (''title'', JStr ''T''), (''releaseDate'', JStr ''2020-01-01'')],
             JObj [(''id'', JInt 2), (''title'', JStr ''U''), (''releaseDate'', JStr ''2022-01-01'')]]) 7
     = Inr (JObj ?resp)"
    by code_simp
  have k1: "\<not> has_key [(''id'', JInt 3)] ''year''"
    by (simp add: has_key_def)
  have k2: "map_of [(''year'', JStr ''n/a'')] ''year'' = Some (JStr ''n/a'')"
    by simp
  have k3: "map_of [(''year'', JStr ''1999'')] ''year'' = Some (JStr ''1999'')"
    by simp
  have p2: "parse_int ''n/a'' = None"
    by code_simp
  have p3: "parse_int ''1999'' = Some 1999"
    by code_simp
  have g: "dget ?resp ''albums'' = JList
          [JObj [(''id'', JInt 2), (''title'', JStr ''U''), (''year'', JStr ''2022''),
                 (''cover'', JNull), (''numberOfTracks'', JNull)],
           JObj [(''id'', JInt 1), (''title'', JStr ''T''), (''year'', JStr ''2020''),
                 (''cover'', JNull), (''numberOfTracks'', JNull)]]"
    by (simp add: dget_def dget_default_def)
  from albums_sorted_descending_by_year
         [of "JObj [(''name'', JStr ''A'')]" _ 7 ?resp "[]" "[(''id'', JInt 3)]" "[]"] run k1 g
  have w1: "(\<exists>collected.
         JList [JObj [(''id'', JInt 2), (''title'', JStr ''U''), (''year'', JStr ''2022''),
                      (''cover'', JNull), (''numberOfTracks'', JNull)],
                JObj [(''id'', JInt 1), (''title'', JStr ''T''), (''year'', JStr ''2020''),
                      (''cover'', JNull), (''numberOfTracks'', JNull)]]
         = JList (map JObj (sort_albums collected)))"
    and w2: "get_album_timestamp [(''id'', JInt 3)] = 0"
    by simp_all
  from albums_sorted_descending_by_year
         [of JNull JNull 7 "[]" "[]" "[(''year'', JStr ''n/a'')]" "''n/a''"] k2 p2
  have w3: "get_album_timestamp [(''year'', JStr ''n/a'')] = 0"
    by simp
  from albums_sorted_descending_by_year
         [of JNull JNull 7 "[]" "[]" "[(''year'', JStr ''1999'')]" "''1999''"] k3 p3
  have w4: "get_album_timestamp [(''year'', JStr ''1999'')] = 1999"
    by simp
  from run w1 w2 w3 w4 show ?thesis by blast
qed

theorem album_without_year_not_last_counterexample:
  "get_artist
     (JObj [(''albums'', JObj [(''rows'', JList [JObj [(''modules'', JList [JObj [(''pagedList'', JObj [(''items'', JList [JObj [(''id'', JInt 1), (''title'', JStr ''A'')], JObj [(''id'', JInt 2), (''title'', JStr ''B''), (''year'', JStr ''-1'')]])])]])]])])])
     JNull 7
   = Inr (JObj [(''artist'', JObj [(''id'', JInt 7), (''name'', JStr ''Artist 7''), (''picture'', JNull), (''popularity'', JNull)]), (''tracks'', JList []), (''albums'', JList [JObj [(''id'', JInt 1), (''title'', JStr ''A''), (''year'', JStr []), (''cover'', JNull), (''numberOfTracks'', JNull)], JObj [(''id'', JInt 2), (''title'', JStr ''B''), (''year'', JStr ''-1''), (''cover'', JNull), (''numberOfTracks'', JNull)]])])
   \<and> get_album_timestamp [(''id'', JInt 1), (''title'', JStr ''A''), (''year'', JStr []), (''cover'', JNull), (''numberOfTracks'', JNull)] = 0
   \<and> get_album_timestamp [(''id'', JInt 2), (''title'', JStr ''B''), (''year'', JStr ''-1''), (''cover'', JNull), (''numberOfTracks'', JNull)] = - 1"
  by code_simp

text \<open>
  C7. The year of a canonical album. An album reached by the descent through
  \<^verbatim>\<open>albums.rows[].modules[].pagedList.items[]\<close> gets the part of its
  \<^verbatim>\<open>releaseDate\<close> before the first hyphen, else its \<^verbatim>\<open>year\<close> field, else
  the empty string. The same album reached under \<^verbatim>\<open>albums.items\<close>, or returned
  by the direct albums endpoint, gets the empty string although it carries a
  \<^verbatim>\<open>year\<close>: those two paths never read the field.
\<close>

theorem flat_album_paths_ignore_year_field:
  "page_albums (JObj [(''rows'', JList [JObj [(''modules'', JList [JObj [(''pagedList'', JObj
        [(''items'', JList [JObj [(''id'', JInt 1), (''title'', JStr ''T''), (''year'', JStr ''2020'')]])])]])]])])
     = Inr [[(''id'', JInt 1), (''title'', JStr ''T''), (''year'', JStr ''2020''),
             (''cover'', JNull), (''numberOfTracks'', JNull)]]
   \<and> page_albums (JObj [(''items'', JList
        [JObj [(''id'', JInt 1), (''title'', JStr ''T''), (''year'', JStr ''2020'')]])])
     = Inr [[(''id'', JInt 1), (''title'', JStr ''T''), (''year'', JStr []),
             (''cover'', JNull), (''numberOfTracks'', JNull)]]
   \<and> direct_fallback (JObj [(''items'', JList
        [JObj [(''id'', JInt 1), (''title'', JStr ''T''), (''year'', JStr ''2020'')]])]) []
     = Inr [[(''id'', JInt 1), (''title'', JStr ''T''), (''year'', JStr []),
             (''cover'', JNull), (''numberOfTracks'', JNull)]]
   \<and> get_artist (JObj [(''albums'', JObj [(''items'', JList
        [JObj [(''id'', JInt 1), (''title'', JStr ''T''), (''year'', JStr ''2020'')]])])]) JNull 7
     = Inr (JObj
         [(''artist'', JObj [(''id'', JInt 7), (''name'', JStr ''Artist 7''), (''picture'', JNull),
                             (''popularity'', JNull)]),
          (''tracks'', JList []),
          (''albums'', JList
            [JObj [(''id'', JInt 1), (''title'', JStr ''T''), (''year'', JStr []),
                   (''cover'', JNull), (''numberOfTracks'', JNull)]])])"
  by code_simp

subsection \<open>Playlist search\<close>

lemma playlist_items_cong:
  "playlist_items str_as_int included xs = playlist_items str_as_int included ys \<Longrightarrow>
   playlist_items str_as_int included (x # xs) = playlist_items str_as_int included (x # ys)"
  by (cases x) simp_all

lemma playlist_items_skip:
  "\<not> truthy (py_or (dget pl ''uuid'') (dget pl ''id'')) \<Longrightarrow>
   playlist_items str_as_int included (before @ JObj pl # rest) = playlist_items str_as_int included (before @ rest)"
proof (induction before)
  case Nil
  then show ?case by simp
next
  case (Cons x before)
  then have "playlist_items str_as_int included (before @ JObj pl # rest) = playlist_items str_as_int included (before @ rest)"
    by simp
  then show ?case
    using playlist_items_cong [of str_as_int included "before @ JObj pl # rest" "before @ rest" x] by simp
qed

text \<open>
  C10. Playlist search tests the identifiers by truth value: a playlist whose
  \<^verbatim>\<open>uuid\<close> is absent or \<^verbatim>\<open>None\<close> and whose \<^verbatim>\<open>id\<close> is present but is the
  integer 0 or the empty string is left out of the result. Whatever stands before and
  after it in the extracted list, the answer is the answer for the list without it.
\<close>

theorem falsy_identifier_excluded:
  assumes "\<not> has_key pl ''uuid'' \<or> map_of pl ''uuid'' = Some JNull"
    and "map_of pl ''id'' = Some (JInt 0) \<or> map_of pl ''id'' = Some (JStr [])"
  shows "has_key pl ''id''
         \<and> search_playlists str_as_int result (before @ JObj pl # rest) = search_playlists str_as_int result (before @ rest)
         \<and> search_playlists str_as_int result [JObj pl] = Inr []"
proof -
  from assms(1) have u: "dget pl ''uuid'' = JNull"
    by (auto simp: has_key_def dget_def dget_default_def)
  from assms(2) have i: "\<not> truthy (dget pl ''id'')" and k: "has_key pl ''id''"
    by (auto simp: has_key_def dget_def dget_default_def)
  from u i have f: "\<not> truthy (py_or (dget pl ''uuid'') (dget pl ''id''))"
    by (simp add: py_or_def)
  from k f show ?thesis
    by (simp add: search_playlists_def playlist_items_skip [OF f])
qed

theorem falsy_identifier_excluded_witness:
  "search_playlists Map.empty (JObj [(''playlists'', JNull)])
     [JObj [(''uuid'', JStr ''p-1''), (''title'', JStr ''A'')], JObj [(''id'', JInt 0), (''title'', JStr ''Z'')], JObj [(''uuid'', JNull), (''id'', JStr []), (''title'', JStr ''E'')]]
   = Inr [\<lparr>pl_id = ''p-1'', pl_title = JStr ''A'', pl_creator = JNull, pl_description = JNull,
           pl_numberOfTracks = JNull, pl_cover = JNull\<rparr>]"
proof -
  have a: "\<not> has_key [(''id'', JInt 0), (''title'', JStr ''Z'')] ''uuid''
           \<or> map_of [(''id'', JInt 0), (''title'', JStr ''Z'')] ''uuid'' = Some JNull"
    by (simp add: has_key_def)
  have b: "map_of [(''id'', JInt 0), (''title'', JStr ''Z'')] ''id'' = Some (JInt 0)
           \<or> map_of [(''id'', JInt 0), (''title'', JStr ''Z'')] ''id'' = Some (JStr [])"
    by simp
  have c: "\<not> has_key [(''uuid'', JNull), (''id'', JStr []), (''title'', JStr ''E'')] ''uuid''
           \<or> map_of [(''uuid'', JNull), (''id'', JStr []), (''title'', JStr ''E'')] ''uuid'' = Some JNull"
    by simp
  have d: "map_of [(''uuid'', JNull), (''id'', JStr []), (''title'', JStr ''E'')] ''id'' = Some (JInt 0)
           \<or> map_of [(''uuid'', JNull), (''id'', JStr []), (''title'', JStr ''E'')] ''id'' = Some (JStr [])"
    by simp
  have e: "search_playlists Map.empty (JObj [(''playlists'', JNull)]) [JObj [(''uuid'', JStr ''p-1''), (''title'', JStr ''A'')]]
     = Inr [\<lparr>pl_id = ''p-1'', pl_title = JStr ''A'', pl_creator = JNull, pl_description = JNull,
             pl_numberOfTracks = JNull, pl_cover = JNull\<rparr>]"
    by code_simp
  have s1: "search_playlists Map.empty (JObj [(''playlists'', JNull)])
     ([JObj [(''uuid'', JStr ''p-1''), (''title'', JStr ''A'')]] @ JObj [(''id'', JInt 0), (''title'', JStr ''Z'')] # [JObj [(''uuid'', JNull), (''id'', JStr []), (''title'', JStr ''E'')]])
     = search_playlists Map.empty (JObj [(''playlists'', JNull)])
     ([JObj [(''uuid'', JStr ''p-1''), (''title'', JStr ''A'')]] @ [JObj [(''uuid'', JNull), (''id'', JStr []), (''title'', JStr ''E'')]])"
    using falsy_identifier_excluded [OF a b] by blast
  have s2: "search_playlists Map.empty (JObj [(''playlists'', JNull)])
     ([JObj [(''uuid'', JStr ''p-1''), (''title'', JStr ''A'')]] @ JObj [(''uuid'', JNull), (''id'', JStr []), (''title'', JStr ''E'')] # [])
     = search_playlists Map.empty (JObj [(''playlists'', JNull)]) ([JObj [(''uuid'', JStr ''p-1''), (''title'', JStr ''A'')]] @ [])"
    using falsy_identifier_excluded [OF c d] by blast
  from s1 s2 e show ?thesis
    by (simp only: append.simps)
qed

lemma first_truthy_get_dict:
  "first_truthy_get (JObj d) keys =
     Inr (case first_nonempty d keys of None \<Rightarrow> JNull | Some v \<Rightarrow> v)"
  by (induction keys)
     (simp_all add: first_nonempty_def py_get_def bind_result_def dget_def)

lemma absent_key_falsy: "\<not> has_key d k \<Longrightarrow> \<not> truthy (dget d k)"
  by (simp add: has_key_def dget_def dget_default_def)

lemma first_truthy_in_dict:
  "first_truthy_in (JObj d) keys =
     Inr (case first_nonempty d keys of None \<Rightarrow> JNull | Some v \<Rightarrow> v)"
proof (induction keys)
  case Nil
  then show ?case by (simp add: first_nonempty_def)
next
  case (Cons k keys)
  show ?case
  proof (cases "has_key d k")
    case True
    with Cons show ?thesis
      by (simp add: first_nonempty_def py_get_def bind_result_def dget_def)
  next
    case False
    with Cons absent_key_falsy [OF False] show ?thesis
      by (simp add: first_nonempty_def bind_result_def)
  qed
qed

lemma first_nonempty_truthy: "first_nonempty d keys = Some v \<Longrightarrow> truthy v"
  by (auto simp: first_nonempty_def find_Some_iff)

lemma get_cover_id_chain:
  assumes "dget_default pl ''attributes'' (JObj []) = JObj attrs"
  shows "get_cover_id included pl =
     Inr (case first_nonempty attrs priority_keys of
            Some v \<Rightarrow> JStr (py_strip (py_str v))
          | None \<Rightarrow>
              (case first_nonempty pl priority_keys of
                 Some v \<Rightarrow> JStr (py_strip (py_str v))
               | None \<Rightarrow> (case relationship_cover pl included of Inl e \<Rightarrow> JNull | Inr c \<Rightarrow> c)))"
proof (cases "first_nonempty attrs priority_keys")
  case (Some v)
  with first_nonempty_truthy [OF Some] assms show ?thesis
    by (simp add: get_cover_id_def first_truthy_get_dict bind_result_def)
next
  case None
  note attrs_none = None
  show ?thesis
  proof (cases "first_nonempty pl priority_keys")
    case (Some v)
    with first_nonempty_truthy [OF Some] attrs_none assms show ?thesis
      by (simp add: get_cover_id_def first_truthy_get_dict first_truthy_in_dict bind_result_def)
  next
    case None
    with attrs_none assms show ?thesis
      by (simp add: get_cover_id_def first_truthy_get_dict first_truthy_in_dict bind_result_def
               split: sum.splits)
  qed
qed

text \<open>
  C2. Cover resolution of playlist search is a priority chain in which the first match
  wins, for the playlist items whose \<^verbatim>\<open>attributes\<close> entry is absent or an object.
  The keys \<^verbatim>\<open>squareImage\<close>, \<^verbatim>\<open>image\<close>, \<^verbatim>\<open>cover\<close>, \<^verbatim>\<open>picture\<close>,
  \<^verbatim>\<open>imageId\<close> are read in that order from the attributes; if none of them holds a
  truthy value, from the item itself; if none does either, the cover is the result of
  the relationship lookup, \<^verbatim>\<open>None\<close> when the lookup fails. The cover of the first
  two tiers is not the value read but its string form with surrounding white space
  removed, so a value of blanks only wins its tier and gives the empty string. An
  earlier tier that yields a value decides the result alone: items that agree on that
  tier resolve to the same cover whatever their later tiers and the sideloaded table
  hold. An item with \<^verbatim>\<open>attributes.squareImage = "sq"\<close> and top-level
  \<^verbatim>\<open>image = "im"\<close> resolves to \<^verbatim>\<open>"sq"\<close>; an item with a cover reference only
  resolves through the sideloaded table; a top-level \<^verbatim>\<open>image\<close> wins over a cover
  reference; an item with none of the three has the cover \<^verbatim>\<open>None\<close>.
\<close>

theorem cover_priority_chain:
  assumes "dget_default pl ''attributes'' (JObj []) = JObj attrs"
  shows "priority_keys = [''squareImage'', ''image'', ''cover'', ''picture'', ''imageId'']
     \<and> get_cover_id included pl =
         Inr (case first_nonempty attrs priority_keys of
                Some v \<Rightarrow> JStr (py_strip (py_str v))
              | None \<Rightarrow>
                  (case first_nonempty pl priority_keys of
                     Some v \<Rightarrow> JStr (py_strip (py_str v))
                   | None \<Rightarrow> (case relationship_cover pl included of Inl e \<Rightarrow> JNull | Inr c \<Rightarrow> c)))
     \<and> (first_nonempty attrs priority_keys \<noteq> None
          \<and> dget_default pl' ''attributes'' (JObj []) = JObj attrs
          \<longrightarrow> get_cover_id included' pl' = get_cover_id included pl)
     \<and> (first_nonempty attrs priority_keys = None
          \<and> dget_default pl' ''attributes'' (JObj []) = JObj attrs
          \<and> first_nonempty pl priority_keys \<noteq> None
          \<and> map (dget pl') priority_keys = map (dget pl) priority_keys
          \<longrightarrow> get_cover_id included' pl' = get_cover_id included pl)
     \<and> get_cover_id included
          [(''attributes'', JObj [(''squareImage'', JStr ''sq'')]), (''image'', JStr ''im'')]
        = Inr (JStr ''sq'')
     \<and> get_cover_id (JList [JObj [(''id'', JStr ''42''), (''attributes'', JObj [(''files'', JList [JObj [(''href'', JStr ''u'')]])])]])
          [(''relationships'', JObj [(''coverArt'', JObj [(''data'', JList [JObj [(''id'', JStr ''42'')]])])])]
        = Inr (JStr ''u'')
     \<and> get_cover_id (JList [JObj [(''id'', JStr ''42''), (''attributes'', JObj [(''files'', JList [JObj [(''href'', JStr ''u'')]])])]])
          [(''image'', JStr ''im''), (''relationships'', JObj [(''coverArt'', JObj [(''data'', JList [JObj [(''id'', JStr ''42'')]])])])]
        = Inr (JStr ''im'')
     \<and> get_cover_id (JList [JObj [(''id'', JStr ''42''), (''attributes'', JObj [(''files'', JList [JObj [(''href'', JStr ''u'')]])])]])
          [(''title'', JStr ''t'')]
        = Inr JNull"
proof -
  have ex2: "get_cover_id (JList [JObj [(''id'', JStr ''42''), (''attributes'', JObj [(''files'', JList [JObj [(''href'', JStr ''u'')]])])]])
          [(''relationships'', JObj [(''coverArt'', JObj [(''data'', JList [JObj [(''id'', JStr ''42'')]])])])]
        = Inr (JStr ''u'')"
    by code_simp
  have ex3: "get_cover_id (JList [JObj [(''id'', JStr ''42''), (''attributes'', JObj [(''files'', JList [JObj [(''href'', JStr ''u'')]])])]])
          [(''image'', JStr ''im''), (''relationships'', JObj [(''coverArt'', JObj [(''data'', JList [JObj [(''id'', JStr ''42'')]])])])]
        = Inr (JStr ''im'')"
    by code_simp
  have ex4: "get_cover_id (JList [JObj [(''id'', JStr ''42''), (''attributes'', JObj [(''files'', JList [JObj [(''href'', JStr ''u'')]])])]])
          [(''title'', JStr ''t'')]
        = Inr JNull"
    by code_simp
  have ex: "get_cover_id included
          [(''attributes'', JObj [(''squareImage'', JStr ''sq'')]), (''image'', JStr ''im'')]
        = Inr (JStr ''sq'')"
    by (subst get_cover_id_chain [where attrs = "[(''squareImage'', JStr ''sq'')]"])
       (simp_all add: dget_default_def first_nonempty_def priority_keys_def dget_def
          py_strip_def is_space_def)
  have t1: "get_cover_id included' pl' = get_cover_id included pl"
    if "first_nonempty attrs priority_keys \<noteq> None"
      and "dget_default pl' ''attributes'' (JObj []) = JObj attrs"
    using that get_cover_id_chain [OF assms, of included]
      get_cover_id_chain [OF that(2), of included']
    by auto
  have t2: "get_cover_id included' pl' = get_cover_id included pl"
    if "first_nonempty attrs priority_keys = None"
      and "dget_default pl' ''attributes'' (JObj []) = JObj attrs"
      and "first_nonempty pl priority_keys \<noteq> None"
      and "map (dget pl') priority_keys = map (dget pl) priority_keys"
  proof -
    from that(4) have "first_nonempty pl' priority_keys = first_nonempty pl priority_keys"
      unfolding first_nonempty_def by (rule arg_cong)
    with that get_cover_id_chain [OF assms, of included]
      get_cover_id_chain [OF that(2), of included']
    show ?thesis by auto
  qed
  have keys: "priority_keys = [''squareImage'', ''image'', ''cover'', ''picture'', ''imageId'']"
    by (simp add: priority_keys_def)
  show ?thesis
    apply (intro conjI impI)
    subgoal by (rule keys)
    subgoal by (rule get_cover_id_chain [OF assms])
    subgoal by (elim conjE) (rule t1)
    subgoal by (elim conjE) (rule t2)
    subgoal by (rule ex)
    subgoal by (rule ex2)
    subgoal by (rule ex3)
    subgoal by (rule ex4)
    done
qed

theorem cover_priority_chain_witness:
  "get_cover_id (JList [])
     [(''attributes'', JObj [(''image'', JStr '' a1 ''), (''cover'', JStr ''a2'')]), (''squareImage'', JStr ''top'')]
   = Inr (JStr ''a1'')
   \<and> get_cover_id (JList [])
     [(''attributes'', JObj [(''image'', JStr []), (''cover'', JNull)]), (''picture'', JInt 7), (''imageId'', JStr ''x'')]
   = Inr (JStr ''7'')"
proof -
  have a: "dget_default [(''attributes'', JObj [(''image'', JStr '' a1 ''), (''cover'', JStr ''a2'')]), (''squareImage'', JStr ''top'')]
             ''attributes'' (JObj []) = JObj [(''image'', JStr '' a1 ''), (''cover'', JStr ''a2'')]"
    by (simp add: dget_default_def)
  have b: "dget_default [(''attributes'', JObj [(''image'', JStr []), (''cover'', JNull)]), (''picture'', JInt 7), (''imageId'', JStr ''x'')]
             ''attributes'' (JObj []) = JObj [(''image'', JStr []), (''cover'', JNull)]"
    by (simp add: dget_default_def)
  have f1: "first_nonempty [(''image'', JStr '' a1 ''), (''cover'', JStr ''a2'')] priority_keys = Some (JStr '' a1 '')"
    by code_simp
  have f2: "first_nonempty [(''image'', JStr []), (''cover'', JNull)] priority_keys = None"
    by code_simp
  have f3: "first_nonempty [(''attributes'', JObj [(''image'', JStr []), (''cover'', JNull)]), (''picture'', JInt 7), (''imageId'', JStr ''x'')]
              priority_keys = Some (JInt 7)"
    by code_simp
  have s1: "py_strip (py_str (JStr '' a1 '')) = ''a1''"
    by code_simp
  have s2: "py_strip (py_str (JInt 7)) = ''7''"
    by code_simp
  from cover_priority_chain [OF a, of "JList []"] f1 s1
  have w1: "get_cover_id (JList [])
     [(''attributes'', JObj [(''image'', JStr '' a1 ''), (''cover'', JStr ''a2'')]), (''squareImage'', JStr ''top'')]
     = Inr (JStr ''a1'')"
    by simp
  from cover_priority_chain [OF b, of "JList []"] f2 f3 s2
  have w2: "get_cover_id (JList [])
     [(''attributes'', JObj [(''image'', JStr []), (''cover'', JNull)]), (''picture'', JInt 7), (''imageId'', JStr ''x'')]
     = Inr (JStr ''7'')"
    by simp
  from w1 w2 show ?thesis by blast
qed

theorem cover_of_item_with_null_attributes_counterexample:
  "get_cover_id (JList []) [(''attributes'', JNull), (''image'', JStr ''im'')] = Inl AttributeError
   \<and> get_cover_id (JList []) [(''attributes'', JObj [(''squareImage'', JStr ''  ''), (''image'', JStr ''im'')])]
       = Inr (JStr [])"
  by code_simp

subsection \<open>The track loops\<close>

lemma unwrap_dict_item: "unwrap_item item = JObj track \<Longrightarrow> \<exists>i. item = JObj i"
  by (cases item) simp_all

lemma album_step_dropped: "\<not> carries_id item \<Longrightarrow> album_track_step tracks item = tracks"
  by (auto simp: carries_id_def album_track_step_def split: json.splits)

lemma album_step_kept:
  assumes "carries_id item"
  shows "album_track_step tracks item =
     tracks @ [dset (track_of item) ''track_number'' (fallback_number item (int (length tracks) + 1))]"
proof -
  from assms obtain track where t: "unwrap_item item = JObj track" and k: "has_key track ''id''"
    by (auto simp: carries_id_def split: json.splits)
  from unwrap_dict_item [OF t] obtain i where i: "item = JObj i" by blast
  from t have tr: "track_of item = track" by (simp add: track_of_def)
  show ?thesis
    unfolding album_track_step_def fallback_number_def tr
    using t k by (simp add: i wrapper_index_def Let_def)
qed

lemma album_loop_acc:
  "foldl album_track_step acc items =
     acc @ map (\<lambda>(k, item). dset (track_of item) ''track_number'' (fallback_number item (int k + 1)))
             (enumerate (length acc) (filter carries_id items))"
proof (induction items arbitrary: acc)
  case Nil
  then show ?case by simp
next
  case (Cons item items)
  show ?case
  proof (cases "carries_id item")
    case True
    then show ?thesis by (simp add: album_step_kept Cons.IH)
  next
    case False
    then show ?thesis by (simp add: album_step_dropped Cons.IH)
  qed
qed

lemma dget_dset: "dget (dset d k v) k = v"
  by (induction d) (auto simp: dget_def dget_default_def)

lemma album_loop_numbers:
  "map (\<lambda>t. dget t ''track_number'') (album_tracks_loop items) =
     map (\<lambda>(k, item). fallback_number item (int k + 1)) (enumerate 0 (filter carries_id items))"
  by (simp add: album_tracks_loop_def album_loop_acc dget_dset case_prod_unfold)

lemma album_loop_length: "length (album_tracks_loop items) = length (filter carries_id items)"
  by (simp add: album_tracks_loop_def album_loop_acc)

lemma bind_result_InrE:
  assumes "bind_result m f = Inr r"
  obtains x where "m = Inr x" and "f x = Inr r"
  using assms by (cases m) (simp_all add: bind_result_def)

lemma str_field_value: "str_field v = Inr w \<Longrightarrow> w = v"
  by (cases v) (simp_all add: str_field_def)

lemma optional_str_field_value: "optional_field str_field v = Inr w \<Longrightarrow> w = v"
  by (cases v) (simp_all add: optional_field_def str_field_def)

lemma validate_track_fields:
  assumes "validate_track str_as_int args = Inr r"
  shows "tr_artist r = tr_artist args"
    and "tr_title r = tr_title args"
    and "int_field str_as_int (tr_id args) = Inr (tr_id r)"
    and "optional_field (int_field str_as_int) (tr_track_number args) = Inr (tr_track_number r)"
    and "optional_field (int_field str_as_int) (tr_trackNumber args) = Inr (tr_trackNumber r)"
  using assms unfolding validate_track_def
  by (elim bind_result_InrE; auto dest: str_field_value)+

lemma album_track_args_number:
  "album_track_args album_id track = Inr a \<Longrightarrow> tr_track_number a = dget track ''track_number''"
  by (auto simp: album_track_args_def bind_result_def Let_def split: sum.splits)

lemma album_track_result_number:
  assumes "album_track_result str_as_int album_id track = Inr r"
  shows "Inr (tr_track_number r) = optional_field (int_field str_as_int) (dget track ''track_number'')"
proof -
  from assms obtain a where a: "album_track_args album_id track = Inr a"
    and v: "validate_track str_as_int a = Inr r"
    unfolding album_track_result_def by (elim bind_result_InrE)
  from validate_track_fields(4) [OF v] album_track_args_number [OF a] show ?thesis
    by simp
qed

lemma map_result_length: "map_result f xs = Inr ys \<Longrightarrow> length ys = length xs"
  by (induction xs arbitrary: ys) (auto simp: bind_result_def split: sum.splits)

lemma map_result_field:
  assumes "\<And>x y. f x = Inr y \<Longrightarrow> g y = h x"
  shows "map_result f xs = Inr ys \<Longrightarrow> map g ys = map h xs"
  by (induction xs arbitrary: ys) (auto simp: bind_result_def assms split: sum.splits)

lemma get_album_tracks_numbers:
  assumes "truthy result" and "py_iter (album_raw_items result) = Inr items"
    and "get_album_tracks str_as_int result album_id = Inr out"
  shows "map (\<lambda>r. Inr (tr_track_number r)) out =
     map (\<lambda>(k, item). optional_field (int_field str_as_int) (fallback_number item (int k + 1)))
       (enumerate 0 (filter carries_id items))"
    and "length out = length (filter carries_id items)"
proof -
  from assms
  have m: "map_result (album_track_result str_as_int album_id) (album_tracks_loop items) = Inr out"
    by (simp add: get_album_tracks_def bind_result_def)
  from map_result_field
         [of "album_track_result str_as_int album_id" "\<lambda>r. Inr (tr_track_number r)"
             "\<lambda>t. optional_field (int_field str_as_int) (dget t ''track_number'')", OF _ m]
  have "map (\<lambda>r. Inr (tr_track_number r)) out =
      map (\<lambda>t. optional_field (int_field str_as_int) (dget t ''track_number''))
        (album_tracks_loop items)"
    by (simp add: album_track_result_number)
  also have "\<dots> = map (optional_field (int_field str_as_int))
      (map (\<lambda>t. dget t ''track_number'') (album_tracks_loop items))"
    by simp
  finally show "map (\<lambda>r. Inr (tr_track_number r)) out =
     map (\<lambda>(k, item). optional_field (int_field str_as_int) (fallback_number item (int k + 1)))
       (enumerate 0 (filter carries_id items))"
    by (simp add: album_loop_numbers case_prod_unfold)
  from map_result_length [OF m] show "length out = length (filter carries_id items)"
    by (simp add: album_loop_length)
qed

lemma playlist_args_dropped: "\<not> carries_id item \<Longrightarrow> playlist_track_args idx item = Inr None"
  by (auto simp: carries_id_def playlist_track_args_def split: json.splits)

lemma playlist_result_dropped:
  "\<not> carries_id item \<Longrightarrow> playlist_track_result str_as_int idx item = Inr None"
  by (simp add: playlist_track_result_def playlist_args_dropped bind_result_def)

lemma playlist_number_fallback:
  assumes "unwrap_item item = JObj track"
  shows "playlist_track_number idx item track = fallback_number item (int idx + 1)"
proof -
  from unwrap_dict_item [OF assms] obtain i where i: "item = JObj i" by blast
  from assms have tr: "track_of item = track" by (simp add: track_of_def)
  show ?thesis
    unfolding playlist_track_number_def fallback_number_def tr
    by (simp add: i wrapper_index_def Let_def py_or_def)
qed

lemma playlist_args_kept:
  assumes "carries_id item" and "playlist_track_args idx item = Inr a"
  shows "\<exists>t. a = Some t \<and> tr_track_number t = fallback_number item (int idx + 1)"
proof -
  from assms(1) obtain track where t: "unwrap_item item = JObj track" and k: "has_key track ''id''"
    by (auto simp: carries_id_def split: json.splits)
  from assms(2) t k playlist_number_fallback [OF t, of idx] show ?thesis
    by (auto simp: playlist_track_args_def bind_result_def Let_def split: sum.splits)
qed

lemma playlist_result_kept:
  assumes "carries_id item" and "playlist_track_result str_as_int idx item = Inr r"
  shows "\<exists>t. r = Some t \<and>
     Inr (tr_track_number t) =
       optional_field (int_field str_as_int) (fallback_number item (int idx + 1))"
proof -
  from assms(2) obtain a where a: "playlist_track_args idx item = Inr a"
    and v: "(case a of None \<Rightarrow> Inr None
             | Some args \<Rightarrow> bind_result (validate_track str_as_int args) (\<lambda>r. Inr (Some r))) = Inr r"
    unfolding playlist_track_result_def by (elim bind_result_InrE)
  from playlist_args_kept [OF assms(1) a] obtain args where s: "a = Some args"
    and n: "tr_track_number args = fallback_number item (int idx + 1)" by blast
  from v s obtain t where t: "validate_track str_as_int args = Inr t" and r: "r = Some t"
    by (auto elim!: bind_result_InrE)
  from validate_track_fields(4) [OF t] n r show ?thesis by simp
qed

lemma playlist_loop_numbers:
  "playlist_tracks_loop str_as_int idx items = Inr out \<Longrightarrow>
   map (\<lambda>r. Inr (tr_track_number r)) out =
     map (\<lambda>(i, item). optional_field (int_field str_as_int) (fallback_number item (int i + 1)))
       (filter (\<lambda>(i, item). carries_id item) (enumerate idx items))"
proof (induction items arbitrary: idx out)
  case Nil
  then show ?case by simp
next
  case (Cons item items)
  from Cons.prems obtain r rs where r: "playlist_track_result str_as_int idx item = Inr r"
    and rs: "playlist_tracks_loop str_as_int (Suc idx) items = Inr rs"
    and out: "out = (case r of None \<Rightarrow> rs | Some t \<Rightarrow> t # rs)"
    by (auto simp: bind_result_def split: sum.splits)
  note ih = Cons.IH [OF rs]
  show ?case
  proof (cases "carries_id item")
    case True
    from playlist_result_kept [OF True r] obtain t where "r = Some t"
      and "Inr (tr_track_number t) =
         optional_field (int_field str_as_int) (fallback_number item (int idx + 1))" by blast
    with True out ih show ?thesis by simp
  next
    case False
    with playlist_result_dropped [OF False, of str_as_int idx] r out ih show ?thesis by simp
  qed
qed

lemma filter_enumerate_length:
  "length (filter (\<lambda>(i, item). P item) (enumerate n xs)) = length (filter P xs)"
  by (induction xs arbitrary: n) auto

lemma get_playlist_tracks_numbers:
  assumes "truthy result" and "py_iter (playlist_raw_of (unwrap_v2 result)) = Inr items"
    and "get_playlist_tracks str_as_int result playlist_id = Inr (info, out)"
  shows "map (\<lambda>r. Inr (tr_track_number r)) out =
     map (\<lambda>(i, item). optional_field (int_field str_as_int) (fallback_number item (int i + 1)))
       (filter (\<lambda>(i, item). carries_id item) (enumerate 0 items))"
    and "length out = length (filter carries_id items)"
proof -
  from assms have m: "playlist_tracks_loop str_as_int 0 items = Inr out"
    by (auto simp: get_playlist_tracks_def bind_result_def split: sum.splits)
  from playlist_loop_numbers [OF m] show n: "map (\<lambda>r. Inr (tr_track_number r)) out =
     map (\<lambda>(i, item). optional_field (int_field str_as_int) (fallback_number item (int i + 1)))
       (filter (\<lambda>(i, item). carries_id item) (enumerate 0 items))" .
  have "length out = length (map (\<lambda>r. Inr (tr_track_number r) :: json result) out)" by simp
  also have "\<dots> = length (filter carries_id items)"
    unfolding n by (simp add: filter_enumerate_length)
  finally show "length out = length (filter carries_id items)" .
qed

lemma fallback_number_truthy: "n \<noteq> 0 \<Longrightarrow> truthy (fallback_number item n)"
  by (simp add: fallback_number_def Let_def)

lemma dget_dset_other: "k' \<noteq> k \<Longrightarrow> dget (dset d k v) k' = dget d k'"
  by (induction d) (auto simp: dget_def dget_default_def)

lemma artist_name_of_dset: "artist_name_of (dset d ''track_number'' v) = artist_name_of d"
  by (simp add: artist_name_of_def dget_dset_other cong: json.case_cong)









subsection \<open>Items without an identifier\<close>

lemma map_result_fails:
  "isl (f x) \<Longrightarrow> isl (map_result f (before @ x # rest))"
  by (induction before) (auto simp: bind_result_def split: sum.splits)

lemma search_track_result_no_id:
  "\<not> has_key t ''id'' \<Longrightarrow> search_track_result str_as_int (JObj t) = Inl KeyError"
  by (simp add: search_track_result_def search_track_args_def has_key_def bind_result_def)

lemma search_tracks_no_id:
  assumes "truthy result" and "\<not> has_key t ''id''"
  shows "isl (search_tracks str_as_int result (before @ JObj t # rest))"
proof -
  from search_track_result_no_id [OF assms(2)]
  have "isl (map_result (search_track_result str_as_int) (before @ JObj t # rest))"
    by (intro map_result_fails) simp
  with assms(1) show ?thesis
    by (simp add: search_tracks_def bind_result_def split: sum.splits)
qed

text \<open>
  C1. The album and the playlist endpoint leave out the items whose track object has no
  \<^verbatim>\<open>id\<close> key and go on: an answer they give has as many entries as there are raw
  items that carry an id. Track search does not: the comprehension of
  \<^verbatim>\<open>search_tracks\<close> reads \<^verbatim>\<open>track['id']\<close> of every extracted item, so one
  track object without an \<^verbatim>\<open>id\<close> key anywhere in the list makes the whole request
  fail. For the two tracks \<^verbatim>\<open>{"id": 5, "title": "five"}\<close> and
  \<^verbatim>\<open>{"title": "no id"}\<close> track search raises \<^verbatim>\<open>KeyError\<close>, where the album
  endpoint answers with the one track that has an id.
\<close>

theorem track_search_fails_on_item_without_id:
  "(truthy result \<and> \<not> has_key t ''id''
      \<longrightarrow> isl (search_tracks str_as_int result (before @ JObj t # rest)))
   \<and> (truthy aresult \<and> py_iter (album_raw_items aresult) = Inr aitems
        \<and> get_album_tracks str_as_int aresult album_id = Inr aout
      \<longrightarrow> length aout = length (filter carries_id aitems))
   \<and> (truthy presult \<and> py_iter (playlist_raw_of (unwrap_v2 presult)) = Inr pitems
        \<and> get_playlist_tracks str_as_int presult playlist_id = Inr (info, pout)
      \<longrightarrow> length pout = length (filter carries_id pitems))
   \<and> search_tracks str_as_int (JObj [(''tracks'', JObj [(''items'', JList [JInt 1])])])
         [JObj [(''id'', JInt 5), (''title'', JStr ''five'')], JObj [(''title'', JStr ''no id'')]]
       = Inl KeyError
   \<and> get_album_tracks str_as_int (JObj [(''items'', JList [JObj [(''id'', JInt 5), (''title'', JStr ''five'')], JObj [(''title'', JStr ''no id'')]])]) 1
       = Inr [\<lparr>tr_id = JInt 5, tr_title = JStr ''five'', tr_artist = JStr ''Unknown'',
               tr_album = JNull, tr_track_number = JInt 1, tr_duration = JNull, tr_cover = JNull,
               tr_quality = JNull, tr_trackNumber = JNull, tr_albumArtist = JStr ''Unknown'',
               tr_tidal_artist_id = JNull, tr_tidal_album_id = JInt 1\<rparr>]"
proof -
  have e1: "search_tracks str_as_int (JObj [(''tracks'', JObj [(''items'', JList [JInt 1])])])
         [JObj [(''id'', JInt 5), (''title'', JStr ''five'')], JObj [(''title'', JStr ''no id'')]]
       = Inl KeyError"
    by code_simp
  have e2: "get_album_tracks str_as_int (JObj [(''items'', JList [JObj [(''id'', JInt 5), (''title'', JStr ''five'')], JObj [(''title'', JStr ''no id'')]])]) 1
       = Inr [\<lparr>tr_id = JInt 5, tr_title = JStr ''five'', tr_artist = JStr ''Unknown'',
               tr_album = JNull, tr_track_number = JInt 1, tr_duration = JNull, tr_cover = JNull,
               tr_quality = JNull, tr_trackNumber = JNull, tr_albumArtist = JStr ''Unknown'',
               tr_tidal_artist_id = JNull, tr_tidal_album_id = JInt 1\<rparr>]"
    by code_simp
  show ?thesis
    apply (intro conjI impI)
    subgoal by (elim conjE) (rule search_tracks_no_id)
    subgoal by (elim conjE) (rule get_album_tracks_numbers(2))
    subgoal by (elim conjE) (rule get_playlist_tracks_numbers(2))
    subgoal by (rule e1)
    subgoal by (rule e2)
    done
qed

theorem track_search_fails_on_item_without_id_witness:
  "isl (search_tracks Map.empty (JObj [(''tracks'', JObj [(''items'', JList [JInt 1])])])
          [JObj [(''id'', JInt 5), (''title'', JStr ''five'')], JObj [(''title'', JStr ''no id'')], JObj [(''id'', JInt 6), (''title'', JStr ''six'')]])
   \<and> length (filter carries_id
         [JObj [(''item'', JObj [(''id'', JInt 5)])], JObj [(''item'', JObj [(''title'', JStr ''no id'')])], JObj [(''id'', JInt 6)]]) = 2"
proof -
  have t: "truthy (JObj [(''tracks'', JObj [(''items'', JList [JInt 1])])])"
    by simp
  have k: "\<not> has_key [(''title'', JStr ''no id'')] ''id''"
    by (simp add: has_key_def)
  have a1: "truthy (JObj [(''items'', JList [JObj [(''item'', JObj [(''id'', JInt 5)])], JObj [(''item'', JObj [(''title'', JStr ''no id'')])], JObj [(''id'', JInt 6)]])])"
    by simp
  have a2: "py_iter (album_raw_items (JObj [(''items'', JList [JObj [(''item'', JObj [(''id'', JInt 5)])], JObj [(''item'', JObj [(''title'', JStr ''no id'')])], JObj [(''id'', JInt 6)]])]))
            = Inr [JObj [(''item'', JObj [(''id'', JInt 5)])], JObj [(''item'', JObj [(''title'', JStr ''no id'')])], JObj [(''id'', JInt 6)]]"
    by code_simp
  have a3: "get_album_tracks Map.empty (JObj [(''items'', JList [JObj [(''item'', JObj [(''id'', JInt 5)])], JObj [(''item'', JObj [(''title'', JStr ''no id'')])], JObj [(''id'', JInt 6)]])]) 1
            = Inr [\<lparr>tr_id = JInt 5, tr_title = JStr ''Unknown'', tr_artist = JStr ''Unknown'',
               tr_album = JNull, tr_track_number = JInt 1, tr_duration = JNull, tr_cover = JNull,
               tr_quality = JNull, tr_trackNumber = JNull, tr_albumArtist = JStr ''Unknown'',
               tr_tidal_artist_id = JNull, tr_tidal_album_id = JInt 1\<rparr>,
              \<lparr>tr_id = JInt 6, tr_title = JStr ''Unknown'', tr_artist = JStr ''Unknown'',
               tr_album = JNull, tr_track_number = JInt 2, tr_duration = JNull, tr_cover = JNull,
               tr_quality = JNull, tr_trackNumber = JNull, tr_albumArtist = JStr ''Unknown'',
               tr_tidal_artist_id = JNull, tr_tidal_album_id = JInt 1\<rparr>]"
    by code_simp
  note th = track_search_fails_on_item_without_id
    [where str_as_int = Map.empty and result = "JObj [(''tracks'', JObj [(''items'', JList [JInt 1])])]" and t = "[(''title'', JStr ''no id'')]"
       and before = "[JObj [(''id'', JInt 5), (''title'', JStr ''five'')]]" and rest = "[JObj [(''id'', JInt 6), (''title'', JStr ''six'')]]"
       and aresult = "JObj [(''items'', JList [JObj [(''item'', JObj [(''id'', JInt 5)])], JObj [(''item'', JObj [(''title'', JStr ''no id'')])], JObj [(''id'', JInt 6)]])]"
       and aitems = "[JObj [(''item'', JObj [(''id'', JInt 5)])], JObj [(''item'', JObj [(''title'', JStr ''no id'')])], JObj [(''id'', JInt 6)]]"
       and album_id = 1]
  have w1: "isl (search_tracks Map.empty (JObj [(''tracks'', JObj [(''items'', JList [JInt 1])])])
          ([JObj [(''id'', JInt 5), (''title'', JStr ''five'')]] @ JObj [(''title'', JStr ''no id'')] # [JObj [(''id'', JInt 6), (''title'', JStr ''six'')]]))"
    by (rule th [THEN conjunct1, rule_format, OF conjI [OF t k]])
  have w2: "length (filter carries_id
         [JObj [(''item'', JObj [(''id'', JInt 5)])], JObj [(''item'', JObj [(''title'', JStr ''no id'')])], JObj [(''id'', JInt 6)]]) = 2"
    using th [THEN conjunct2, THEN conjunct1, rule_format, OF conjI [OF a1 conjI [OF a2 a3]]]
    by simp
  from w1 w2 show ?thesis by (simp only: append.simps)
qed

subsection \<open>Track numbers\<close>

text \<open>
  C4. The number reported for a track (the field \<^verbatim>\<open>track_number\<close> of the answer) is
  the validated form of the first truthy value among the \<^verbatim>\<open>trackNumber\<close> or
  \<^verbatim>\<open>track_number\<close> of the track object, the \<^verbatim>\<open>index\<close> of the enclosing item and
  a 1-based position; a position is never 0, so there always is such a value. The album
  endpoint takes as position the number of tracks kept so far plus one, the position
  among the extracted items. The playlist endpoint takes the index in the raw sequence
  plus one, so an item without an id that the loop skips still moves the numbers of the
  items after it: for the raw items \<^verbatim>\<open>{"item": {"title": "no id"}}\<close> and
  \<^verbatim>\<open>{"item": {"id": 5, "title": "five"}}\<close> the one extracted track gets the number 1
  from the album endpoint and the number 2 from the playlist endpoint.
\<close>

theorem playlist_position_counts_skipped_items:
  "(truthy aresult \<and> py_iter (album_raw_items aresult) = Inr aitems
      \<and> get_album_tracks str_as_int aresult album_id = Inr aout
    \<longrightarrow> map (\<lambda>r. Inr (tr_track_number r)) aout =
         map (\<lambda>(k, item). optional_field (int_field str_as_int) (fallback_number item (int k + 1)))
           (enumerate 0 (filter carries_id aitems)))
   \<and> (truthy presult \<and> py_iter (playlist_raw_of (unwrap_v2 presult)) = Inr pitems
      \<and> get_playlist_tracks str_as_int presult playlist_id = Inr (info, pout)
    \<longrightarrow> map (\<lambda>r. Inr (tr_track_number r)) pout =
         map (\<lambda>(i, item). optional_field (int_field str_as_int) (fallback_number item (int i + 1)))
           (filter (\<lambda>(i, item). carries_id item) (enumerate 0 pitems)))
   \<and> (n \<noteq> 0 \<longrightarrow> truthy (fallback_number item n))
   \<and> fallback_number (JObj [(''item'', JObj [(''id'', JInt 1)]), (''index'', JInt 3)]) n = JInt 3
   \<and> fallback_number (JObj [(''item'', JObj [(''id'', JInt 1)])]) n = JInt n
   \<and> get_album_tracks str_as_int (JObj [(''items'', JList [JObj [(''item'', JObj [(''title'', JStr ''no id'')])], JObj [(''item'', JObj [(''id'', JInt 5), (''title'', JStr ''five'')])]])]) 7
     = Inr [\<lparr>tr_id = JInt 5, tr_title = JStr ''five'', tr_artist = JStr ''Unknown'',
        tr_album = JNull, tr_track_number = JInt 1, tr_duration = JNull,
        tr_cover = JNull, tr_quality = JNull, tr_trackNumber = JNull,
        tr_albumArtist = JStr ''Unknown'', tr_tidal_artist_id = JNull,
        tr_tidal_album_id = JInt 7\<rparr>]
   \<and> get_playlist_tracks str_as_int (JObj [(''items'', JList [JObj [(''item'', JObj [(''title'', JStr ''no id'')])], JObj [(''item'', JObj [(''id'', JInt 5), (''title'', JStr ''five'')])]])]) ''p''
     = Inr (JObj [(''id'', JStr ''p''), (''title'', JNull), (''description'', JNull),
         (''numberOfTracks'', JNull), (''cover'', JNull), (''relationships'', JObj [])],
     [\<lparr>tr_id = JInt 5, tr_title = JStr ''five'', tr_artist = JStr ''Unknown'',
        tr_album = JNull, tr_track_number = JInt 2, tr_duration = JNull,
        tr_cover = JNull, tr_quality = JNull, tr_trackNumber = JNull,
        tr_albumArtist = JNull, tr_tidal_artist_id = JNull,
        tr_tidal_album_id = JNull\<rparr>])"
proof -
  have e1: "fallback_number (JObj [(''item'', JObj [(''id'', JInt 1)]), (''index'', JInt 3)]) n = JInt 3"
    by (simp add: fallback_number_def track_of_def wrapper_index_def dget_def dget_default_def
          py_or_def)
  have e2: "fallback_number (JObj [(''item'', JObj [(''id'', JInt 1)])]) n = JInt n"
    by (simp add: fallback_number_def track_of_def wrapper_index_def dget_def dget_default_def
          py_or_def)
  have c1: "get_album_tracks str_as_int (JObj [(''items'', JList [JObj [(''item'', JObj [(''title'', JStr ''no id'')])], JObj [(''item'', JObj [(''id'', JInt 5), (''title'', JStr ''five'')])]])]) 7
     = Inr [\<lparr>tr_id = JInt 5, tr_title = JStr ''five'', tr_artist = JStr ''Unknown'',
        tr_album = JNull, tr_track_number = JInt 1, tr_duration = JNull,
        tr_cover = JNull, tr_quality = JNull, tr_trackNumber = JNull,
        tr_albumArtist = JStr ''Unknown'', tr_tidal_artist_id = JNull,
        tr_tidal_album_id = JInt 7\<rparr>]"
    by code_simp
  have c2: "get_playlist_tracks str_as_int (JObj [(''items'', JList [JObj [(''item'', JObj [(''title'', JStr ''no id'')])], JObj [(''item'', JObj [(''id'', JInt 5), (''title'', JStr ''five'')])]])]) ''p''
     = Inr (JObj [(''id'', JStr ''p''), (''title'', JNull), (''description'', JNull),
         (''numberOfTracks'', JNull), (''cover'', JNull), (''relationships'', JObj [])],
     [\<lparr>tr_id = JInt 5, tr_title = JStr ''five'', tr_artist = JStr ''Unknown'',
        tr_album = JNull, tr_track_number = JInt 2, tr_duration = JNull,
        tr_cover = JNull, tr_quality = JNull, tr_trackNumber = JNull,
        tr_albumArtist = JNull, tr_tidal_artist_id = JNull,
        tr_tidal_album_id = JNull\<rparr>])"
    by code_simp
  show ?thesis
    apply (intro conjI impI)
    subgoal by (elim conjE) (rule get_album_tracks_numbers(1))
    subgoal by (elim conjE) (rule get_playlist_tracks_numbers(1))
    subgoal by (rule fallback_number_truthy)
    subgoal by (rule e1)
    subgoal by (rule e2)
    subgoal by (rule c1)
    subgoal by (rule c2)
    done
qed

theorem playlist_position_counts_skipped_items_witness:
  "[Inr (JInt 3), Inr (JInt 9), Inr (JInt 3)] =
         map (\<lambda>(k, item). optional_field (int_field [''3'' \<mapsto> 3]) (fallback_number item (int k + 1)))
           (enumerate 0 (filter carries_id [JObj [(''item'', JObj [(''id'', JInt 1)]), (''index'', JStr ''3'')],
          JObj [(''item'', JObj [(''id'', JInt 2), (''trackNumber'', JInt 9)]), (''index'', JInt 4)],
          JObj [(''item'', JObj [(''id'', JInt 3)])]]))
   \<and> [Inr (JInt 3), Inr (JInt 9), Inr (JInt 3)] =
         map (\<lambda>(i, item). optional_field (int_field [''3'' \<mapsto> 3]) (fallback_number item (int i + 1)))
           (filter (\<lambda>(i, item). carries_id item) (enumerate 0 [JObj [(''item'', JObj [(''id'', JInt 1)]), (''index'', JStr ''3'')],
          JObj [(''item'', JObj [(''id'', JInt 2), (''trackNumber'', JInt 9)]), (''index'', JInt 4)],
          JObj [(''item'', JObj [(''id'', JInt 3)])]]))
   \<and> truthy (fallback_number (JObj [(''item'', JObj [(''id'', JInt 3)])]) 3)"
proof -
  have a1: "truthy (JObj [(''items'', JList [JObj [(''item'', JObj [(''id'', JInt 1)]), (''index'', JStr ''3'')], JObj [(''item'', JObj [(''id'', JInt 2), (''trackNumber'', JInt 9)]), (''index'', JInt 4)], JObj [(''item'', JObj [(''id'', JInt 3)])]])])"
    by simp
  have a2: "py_iter (album_raw_items (JObj [(''items'', JList [JObj [(''item'', JObj [(''id'', JInt 1)]), (''index'', JStr ''3'')], JObj [(''item'', JObj [(''id'', JInt 2), (''trackNumber'', JInt 9)]), (''index'', JInt 4)], JObj [(''item'', JObj [(''id'', JInt 3)])]])]))
      = Inr [JObj [(''item'', JObj [(''id'', JInt 1)]), (''index'', JStr ''3'')],
          JObj [(''item'', JObj [(''id'', JInt 2), (''trackNumber'', JInt 9)]), (''index'', JInt 4)],
          JObj [(''item'', JObj [(''id'', JInt 3)])]]"
    by code_simp
  have a3: "get_album_tracks [''3'' \<mapsto> 3] (JObj [(''items'', JList [JObj [(''item'', JObj [(''id'', JInt 1)]), (''index'', JStr ''3'')], JObj [(''item'', JObj [(''id'', JInt 2), (''trackNumber'', JInt 9)]), (''index'', JInt 4)], JObj [(''item'', JObj [(''id'', JInt 3)])]])]) 7
      = Inr [\<lparr>tr_id = JInt 1, tr_title = JStr ''Unknown'', tr_artist = JStr ''Unknown'',
        tr_album = JNull, tr_track_number = JInt 3, tr_duration = JNull,
        tr_cover = JNull, tr_quality = JNull, tr_trackNumber = JNull,
        tr_albumArtist = JStr ''Unknown'', tr_tidal_artist_id = JNull,
        tr_tidal_album_id = JInt 7\<rparr>,
      \<lparr>tr_id = JInt 2, tr_title = JStr ''Unknown'', tr_artist = JStr ''Unknown'',
        tr_album = JNull, tr_track_number = JInt 9, tr_duration = JNull,
        tr_cover = JNull, tr_quality = JNull, tr_trackNumber = JInt 9,
        tr_albumArtist = JStr ''Unknown'', tr_tidal_artist_id = JNull,
        tr_tidal_album_id = JInt 7\<rparr>,
      \<lparr>tr_id = JInt 3, tr_title = JStr ''Unknown'', tr_artist = JStr ''Unknown'',
        tr_album = JNull, tr_track_number = JInt 3, tr_duration = JNull,
        tr_cover = JNull, tr_quality = JNull, tr_trackNumber = JNull,
        tr_albumArtist = JStr ''Unknown'', tr_tidal_artist_id = JNull,
        tr_tidal_album_id = JInt 7\<rparr>]"
    by code_simp
  have p2: "py_iter (playlist_raw_of (unwrap_v2 (JObj [(''items'', JList [JObj [(''item'', JObj [(''id'', JInt 1)]), (''index'', JStr ''3'')], JObj [(''item'', JObj [(''id'', JInt 2), (''trackNumber'', JInt 9)]), (''index'', JInt 4)], JObj [(''item'', JObj [(''id'', JInt 3)])]])])))
      = Inr [JObj [(''item'', JObj [(''id'', JInt 1)]), (''index'', JStr ''3'')],
          JObj [(''item'', JObj [(''id'', JInt 2), (''trackNumber'', JInt 9)]), (''index'', JInt 4)],
          JObj [(''item'', JObj [(''id'', JInt 3)])]]"
    by code_simp
  have p3: "get_playlist_tracks [''3'' \<mapsto> 3] (JObj [(''items'', JList [JObj [(''item'', JObj [(''id'', JInt 1)]), (''index'', JStr ''3'')], JObj [(''item'', JObj [(''id'', JInt 2), (''trackNumber'', JInt 9)]), (''index'', JInt 4)], JObj [(''item'', JObj [(''id'', JInt 3)])]])]) ''p''
      = Inr (JObj [(''id'', JStr ''p''), (''title'', JNull), (''description'', JNull),
         (''numberOfTracks'', JNull), (''cover'', JNull), (''relationships'', JObj [])],
     [\<lparr>tr_id = JInt 1, tr_title = JStr ''Unknown'', tr_artist = JStr ''Unknown'',
        tr_album = JNull, tr_track_number = JInt 3, tr_duration = JNull,
        tr_cover = JNull, tr_quality = JNull, tr_trackNumber = JNull,
        tr_albumArtist = JNull, tr_tidal_artist_id = JNull,
        tr_tidal_album_id = JNull\<rparr>,
      \<lparr>tr_id = JInt 2, tr_title = JStr ''Unknown'', tr_artist = JStr ''Unknown'',
        tr_album = JNull, tr_track_number = JInt 9, tr_duration = JNull,
        tr_cover = JNull, tr_quality = JNull, tr_trackNumber = JNull,
        tr_albumArtist = JNull, tr_tidal_artist_id = JNull,
        tr_tidal_album_id = JNull\<rparr>,
      \<lparr>tr_id = JInt 3, tr_title = JStr ''Unknown'', tr_artist = JStr ''Unknown'',
        tr_album = JNull, tr_track_number = JInt 3, tr_duration = JNull,
        tr_cover = JNull, tr_quality = JNull, tr_trackNumber = JNull,
        tr_albumArtist = JNull, tr_tidal_artist_id = JNull,
        tr_tidal_album_id = JNull\<rparr>])"
    by code_simp
  have n: "(3::int) \<noteq> 0"
    by simp
  note th = playlist_position_counts_skipped_items
    [where item = "JObj [(''item'', JObj [(''id'', JInt 3)])]" and n = 3 and str_as_int = "[''3'' \<mapsto> 3]"]
  have w1: "[Inr (JInt 3), Inr (JInt 9), Inr (JInt 3)] =
         map (\<lambda>(k, item). optional_field (int_field [''3'' \<mapsto> 3]) (fallback_number item (int k + 1)))
           (enumerate 0 (filter carries_id [JObj [(''item'', JObj [(''id'', JInt 1)]), (''index'', JStr ''3'')],
          JObj [(''item'', JObj [(''id'', JInt 2), (''trackNumber'', JInt 9)]), (''index'', JInt 4)],
          JObj [(''item'', JObj [(''id'', JInt 3)])]]))"
    using th [THEN conjunct1, rule_format, OF conjI [OF a1 conjI [OF a2 a3]]]
    by simp
  have w2: "[Inr (JInt 3), Inr (JInt 9), Inr (JInt 3)] =
         map (\<lambda>(i, item). optional_field (int_field [''3'' \<mapsto> 3]) (fallback_number item (int i + 1)))
           (filter (\<lambda>(i, item). carries_id item) (enumerate 0 [JObj [(''item'', JObj [(''id'', JInt 1)]), (''index'', JStr ''3'')],
          JObj [(''item'', JObj [(''id'', JInt 2), (''trackNumber'', JInt 9)]), (''index'', JInt 4)],
          JObj [(''item'', JObj [(''id'', JInt 3)])]]))"
    using th [THEN conjunct2, THEN conjunct1, rule_format, OF conjI [OF a1 conjI [OF p2 p3]]]
    by simp
  have w3: "truthy (fallback_number (JObj [(''item'', JObj [(''id'', JInt 3)])]) 3)"
    by (rule th [THEN conjunct2, THEN conjunct2, THEN conjunct1, rule_format, OF n])
  from w1 w2 w3 show ?thesis
    by (intro conjI)
qed

subsection \<open>Artist names\<close>




subsection \<open>Covers through relationships\<close>

text \<open>
  C3. Playlist search resolves a cover through \<^verbatim>\<open>relationships.coverArt.data\<close> for
  both shapes of the reference, a list of references and a single reference object, and
  returns the raw resource id when no sideloaded resource matches. The playlist detail
  endpoint follows a list of references only: with the single reference object
  \<^verbatim>\<open>{"id": "42"}\<close> and the sideloaded resource 42 whose first file has the href
  \<^verbatim>\<open>"u"\<close> its cover stays \<^verbatim>\<open>None\<close>, where the list form gives \<^verbatim>\<open>"u"\<close>; and with
  no matching sideloaded resource its cover stays \<^verbatim>\<open>None\<close>, where playlist search
  gives \<^verbatim>\<open>"42"\<close>.
\<close>

theorem playlist_detail_ignores_single_cover_reference:
  "get_cover_id (JList [JObj [(''id'', JStr ''42''), (''attributes'', JObj [(''files'', JList [JObj [(''href'', JStr ''u'')]])])]])
       [(''relationships'', JObj [(''coverArt'', JObj [(''data'', JList [JObj [(''id'', JStr ''42'')]])])])]
     = Inr (JStr ''u'')
   \<and> get_cover_id (JList [JObj [(''id'', JStr ''42''), (''attributes'', JObj [(''files'', JList [JObj [(''href'', JStr ''u'')]])])]])
       [(''relationships'', JObj [(''coverArt'', JObj [(''data'', JObj [(''id'', JStr ''42'')])])])]
     = Inr (JStr ''u'')
   \<and> get_cover_id (JList [JObj [(''id'', JStr ''7'')]])
       [(''relationships'', JObj [(''coverArt'', JObj [(''data'', JList [JObj [(''id'', JStr ''42'')]])])])]
     = Inr (JStr ''42'')
   \<and> get_playlist_tracks str_as_int
       (JObj [(''relationships'', JObj [(''coverArt'', JObj [(''data'', JList [JObj [(''id'', JStr ''42'')]])])]), (''included'', JList [JObj [(''id'', JStr ''42''), (''attributes'', JObj [(''files'', JList [JObj [(''href'', JStr ''u'')]])])]])])
       ''p''
     = Inr (JObj [(''id'', JStr ''p''), (''title'', JNull), (''description'', JNull),
              (''numberOfTracks'', JNull), (''cover'', JStr ''u''),
              (''relationships'', JObj [(''coverArt'', JObj [(''data'', JList [JObj [(''id'', JStr ''42'')]])])])], [])
   \<and> get_playlist_tracks str_as_int
       (JObj [(''relationships'', JObj [(''coverArt'', JObj [(''data'', JObj [(''id'', JStr ''42'')])])]), (''included'', JList [JObj [(''id'', JStr ''42''), (''attributes'', JObj [(''files'', JList [JObj [(''href'', JStr ''u'')]])])]])])
       ''p''
     = Inr (JObj [(''id'', JStr ''p''), (''title'', JNull), (''description'', JNull),
              (''numberOfTracks'', JNull), (''cover'', JNull),
              (''relationships'', JObj [(''coverArt'', JObj [(''data'', JObj [(''id'', JStr ''42'')])])])], [])
   \<and> get_playlist_tracks str_as_int
       (JObj [(''relationships'', JObj [(''coverArt'', JObj [(''data'', JList [JObj [(''id'', JStr ''42'')]])])]), (''included'', JList [JObj [(''id'', JStr ''7'')]])])
       ''p''
     = Inr (JObj [(''id'', JStr ''p''), (''title'', JNull), (''description'', JNull),
              (''numberOfTracks'', JNull), (''cover'', JNull),
              (''relationships'', JObj [(''coverArt'', JObj [(''data'', JList [JObj [(''id'', JStr ''42'')]])])])], [])"
  by code_simp

subsection \<open>Playlist identifiers\<close>

text \<open>
  C5. Playlist search reports the identifier of a playlist as a string: the string form
  of its \<^verbatim>\<open>uuid\<close>, or of its \<^verbatim>\<open>id\<close> when there is no \<^verbatim>\<open>uuid\<close>, so
  \<^verbatim>\<open>{"uuid": "p-1"}\<close> gives \<^verbatim>\<open>"p-1"\<close> and \<^verbatim>\<open>{"id": 5}\<close> gives \<^verbatim>\<open>"5"\<close>. The
  playlist detail endpoint reports the value as it finds it: for the playlist object
  \<^verbatim>\<open>{"id": 5, "title": "P"}\<close> the identifier of the answer is the integer 5. When it
  builds the entry from the top level of the answer it reads \<^verbatim>\<open>uuid\<close> only and
  otherwise reports the identifier of the request.
\<close>

theorem playlist_detail_id_not_stringified:
  "search_playlists str_as_int (JObj [(''playlists'', JList [JInt 1])]) [JObj [(''uuid'', JStr ''p-1'')], JObj [(''id'', JInt 5), (''title'', JStr ''P'')]]
     = Inr [\<lparr>pl_id = ''p-1'', pl_title = JStr ''Untitled Playlist'', pl_creator = JNull,
             pl_description = JNull, pl_numberOfTracks = JNull, pl_cover = JNull\<rparr>,
            \<lparr>pl_id = ''5'', pl_title = JStr ''P'', pl_creator = JNull,
             pl_description = JNull, pl_numberOfTracks = JNull, pl_cover = JNull\<rparr>]
   \<and> get_playlist_tracks str_as_int (JObj [(''playlist'', JObj [(''id'', JInt 5), (''title'', JStr ''P'')])]) ''5''
     = Inr (JObj [(''id'', JInt 5), (''title'', JStr ''P''), (''description'', JNull),
              (''numberOfTracks'', JNull), (''cover'', JNull),
              (''relationships'', JObj [])], [])
   \<and> get_playlist_tracks str_as_int (JObj [(''id'', JInt 5), (''title'', JStr ''P'')]) ''9''
     = Inr (JObj [(''id'', JStr ''9''), (''title'', JStr ''P''), (''description'', JNull),
              (''numberOfTracks'', JNull), (''cover'', JNull),
              (''relationships'', JObj [])], [])"
  by code_simp

end
